theory Spec2Isabelle
  imports Complex_Main "HOL-Library.AList"
begin

section \<open>Conventions of the embedding\<close>

text \<open>
  The embedding follows \<^verbatim>\<open>space_logic.py\<close> and \<^verbatim>\<open>server.py\<close>.
  Python integers are \<^typ>\<open>int\<close>. Python floats are idealised as \<^typ>\<open>real\<close>, except
  in the rescaling of the bucket bounds, whose exact values decide where a price is
  located: there every float operation is rounded to double precision.
  Objects are mutated in place in the source; here every operation takes the object and
  returns the object as it is left behind, paired with the exception that escaped the
  operation (if any): a raise does not undo the mutations that came before it.
\<close>

datatype py_error = IndexError | KeyError | ZeroDivisionError | ValueError | LightGBMError

type_synonym 'a outcome = "'a \<times> py_error option"

section \<open>Bucket\<close>

record Bucket =
  lhs :: real
  rhs :: real
  alpha :: real
  beta :: real
  buffer :: "bool list"
  sizeB :: int
  discount :: real
  pr :: real
  update_qty :: int

text \<open>\<^verbatim>\<open>Bucket.__init__(self, lhs, rhs, size, discount)\<close>\<close>

definition Bucket_init :: "real \<Rightarrow> real \<Rightarrow> int \<Rightarrow> real \<Rightarrow> Bucket" where
  "Bucket_init l r sz d =
     \<lparr>lhs = l, rhs = r, alpha = 1, beta = 1, buffer = [], sizeB = sz, discount = d,
      pr = 0.5, update_qty = 0\<rparr>"

text \<open>
  \<^verbatim>\<open>Bucket.update(self, impression)\<close>. The buffer is newest-first: \<^verbatim>\<open>insert(0, _)\<close> adds
  at the front and \<^verbatim>\<open>pop()\<close> removes the last element, which raises \<^verbatim>\<open>IndexError\<close> on an
  empty list. The float division raises \<^verbatim>\<open>ZeroDivisionError\<close> when \<^verbatim>\<open>alpha + beta\<close> is
  zero. In both cases the fields assigned before the raise keep their new values.
\<close>

definition Bucket_update :: "Bucket \<Rightarrow> bool \<Rightarrow> Bucket outcome" where
  "Bucket_update self impression =
     (let s0 = self\<lparr>update_qty := update_qty self + 1\<rparr>;
          full = (int (length (buffer s0)) \<ge> sizeB s0)
      in if full \<and> buffer s0 = [] then (s0, Some IndexError)
         else
           (let s2 = (if full then
                        (let oldest = last (buffer s0);
                             s1 = s0\<lparr>buffer := butlast (buffer s0)\<rparr>
                         in if oldest then s1\<lparr>alpha := alpha s1 - 1\<rparr>
                            else s1\<lparr>beta := beta s1 - 1\<rparr>)
                      else s0);
                s3 = s2\<lparr>buffer := impression # buffer s2\<rparr>;
                s4 = (if impression then s3\<lparr>alpha := alpha s3 + 1\<rparr>
                      else s3\<lparr>beta := beta s3 + 1\<rparr>)
            in if alpha s4 + beta s4 = 0 then (s4, Some ZeroDivisionError)
               else (s4\<lparr>pr := discount s4 * pr s4
                                + (1 - discount s4) * (alpha s4 / (alpha s4 + beta s4))\<rparr>,
                     None)))"

text \<open>A finite sequence of \<^verbatim>\<open>update\<close> calls on one bucket; it stops at the first raise.\<close>

fun Bucket_updates :: "Bucket \<Rightarrow> bool list \<Rightarrow> Bucket outcome" where
  "Bucket_updates b [] = (b, None)"
| "Bucket_updates b (x # xs) =
     (case Bucket_update b x of
        (b', None) \<Rightarrow> Bucket_updates b' xs
      | (b', Some e) \<Rightarrow> (b', Some e))"

text \<open>
  The state a bucket is in between two calls: the counters are the prior plus the contents
  of the window, the window is within its capacity, and the lifetime counter is consistent
  with the window.
\<close>

definition Bucket_inv :: "Bucket \<Rightarrow> bool" where
  "Bucket_inv b \<longleftrightarrow>
     1 \<le> sizeB b \<and>
     alpha b = 1 + real (length (filter (\<lambda>x. x) (buffer b))) \<and>
     beta b = 1 + real (length (filter (\<lambda>x. \<not> x) (buffer b))) \<and>
     int (length (buffer b)) = min (update_qty b) (sizeB b) \<and>
     0 \<le> update_qty b"

text \<open>The same, with the discount and the smoothed estimate in the unit interval.\<close>

definition Bucket_ok :: "Bucket \<Rightarrow> bool" where
  "Bucket_ok b \<longleftrightarrow>
     Bucket_inv b \<and> 0 \<le> discount b \<and> discount b \<le> 1 \<and> 0 \<le> pr b \<and> pr b \<le> 1"

section \<open>Level\<close>

record Level =
  buckets :: "Bucket list"
  winning_curve :: "real list"

text \<open>\<^verbatim>\<open>Level.__init__(self, buckets)\<close>\<close>

definition Level_init :: "Bucket list \<Rightarrow> Level" where
  "Level_init bs = \<lparr>buckets = bs, winning_curve = map (\<lambda>_. 0.5) bs\<rparr>"

text \<open>
  The loop of \<^verbatim>\<open>Level.sample_buckets\<close>: \<^verbatim>\<open>for i, b in enumerate(self.buckets)\<close>, with the
  running index as an argument; \<^verbatim>\<open>-1\<close> when the loop falls through.
\<close>

fun sample_buckets_from :: "int \<Rightarrow> Bucket list \<Rightarrow> real \<Rightarrow> int" where
  "sample_buckets_from i [] price = - 1"
| "sample_buckets_from i (b # bs) price =
     (if lhs b \<le> price \<and> price \<le> rhs b then i else sample_buckets_from (i + 1) bs price)"

definition Level_sample_buckets :: "Level \<Rightarrow> real \<Rightarrow> int" where
  "Level_sample_buckets self price = sample_buckets_from 0 (buckets self) price"

section \<open>Space\<close>

text \<open>One entry of \<^verbatim>\<open>learning_data[i]\<close>: the dict with the keys \<^verbatim>\<open>pr\<close>, \<^verbatim>\<open>price\<close>, \<^verbatim>\<open>impression\<close>.\<close>

record Sample =
  s_pr :: real
  s_price :: real
  s_impression :: int

text \<open>
  \<^verbatim>\<open>learning_data\<close> is a dict keyed by the level index. The lock of the source is not a field
  here: a call that runs alone finds it free and leaves it free; it appears in the section on
  interleavings below.
\<close>

record Space =
  context_hash :: string
  levels :: "Level list"
  learning_data :: "nat \<rightharpoonup> Sample list"

definition Space_init :: "string \<Rightarrow> Level list \<Rightarrow> Space" where
  "Space_init ctx lvls =
     \<lparr>context_hash = ctx, levels = lvls,
      learning_data = (\<lambda>i. if i < length lvls then Some [] else None)\<rparr>"

text \<open>Python list indexing: a negative index counts from the end; out of range raises.\<close>

definition py_index :: "'a list \<Rightarrow> int \<Rightarrow> nat option" where
  "py_index xs i =
     (let n = int (length xs); j = (if i < 0 then n + i else i)
      in if 0 \<le> j \<and> j < n then Some (nat j) else None)"

text \<open>
  The body of \<^verbatim>\<open>Space.update_feedback\<close> (the block under \<^verbatim>\<open>with self.lock\<close>), as a loop
  over \<^verbatim>\<open>enumerate(buckets_indices)\<close> from index \<open>i\<close> on.
\<close>

fun update_feedback_from :: "nat \<Rightarrow> Space \<Rightarrow> int list \<Rightarrow> bool \<Rightarrow> Space outcome" where
  "update_feedback_from i self [] impression = (self, None)"
| "update_feedback_from i self (bID # rest) impression =
     (if bID = - 1 then update_feedback_from (Suc i) self rest impression
      else if \<not> i < length (levels self) then (self, Some IndexError)
      else
        (let lvl = levels self ! i
         in case py_index (buckets lvl) bID of
              None \<Rightarrow> (self, Some IndexError)
            | Some k \<Rightarrow>
                (case Bucket_update (buckets lvl ! k) impression of
                   (b', ex) \<Rightarrow>
                     (let self1 = self\<lparr>levels :=
                                   (levels self)[i := lvl\<lparr>buckets := (buckets lvl)[k := b']\<rparr>]\<rparr>
                      in case ex of
                           Some e \<Rightarrow> (self1, Some e)
                         | None \<Rightarrow>
                             (case learning_data self1 i of
                                None \<Rightarrow> (self1, Some KeyError)
                              | Some data \<Rightarrow>
                                  update_feedback_from (Suc i)
                                    (self1\<lparr>learning_data := (learning_data self1)(i \<mapsto> data @
                                       [\<lparr>s_pr = pr b', s_price = (lhs b' + rhs b') / 2,
                                         s_impression = (if impression then 1 else 0)\<rparr>])\<rparr>)
                                    rest impression)))))"

definition Space_update_feedback :: "Space \<Rightarrow> int list \<Rightarrow> bool \<Rightarrow> Space outcome" where
  "Space_update_feedback self buckets_indices impression =
     update_feedback_from 0 self buckets_indices impression"

subsection \<open>Recalibration\<close>

text \<open>
  LightGBM is outside the repository. \<^verbatim>\<open>lgb.train\<close> on the samples of a level and
  \<^verbatim>\<open>model.predict\<close> at one point \<^verbatim>\<open>(pr, mid_price)\<close> are parameters; either may raise.
\<close>

record 'm Learner =
  train :: "Sample list \<Rightarrow> py_error + 'm"
  predict :: "'m \<Rightarrow> real \<Rightarrow> real \<Rightarrow> py_error + real"

text \<open>
  Lines 110 to 113 of \<^verbatim>\<open>Space.learn\<close>: the loop over \<^verbatim>\<open>enumerate(level.buckets)\<close> from
  index \<open>j\<close> on, writing \<^verbatim>\<open>level.winning_curve[j]\<close>; an entry written before a raise stays
  written.
\<close>

fun predict_from :: "'m Learner \<Rightarrow> 'm \<Rightarrow> nat \<Rightarrow> Bucket list \<Rightarrow> real list \<Rightarrow> real list outcome" where
  "predict_from lgb model j [] wc = (wc, None)"
| "predict_from lgb model j (bucket # rest) wc =
     (let mid_price = (lhs bucket + rhs bucket) / 2
      in case predict lgb model (pr bucket) mid_price of
           Inl e \<Rightarrow> (wc, Some e)
         | Inr pred \<Rightarrow>
             if j < length wc then predict_from lgb model (Suc j) rest (wc[j := pred])
             else (wc, Some IndexError))"

datatype fit = Skipped | Fitted | Raised py_error

text \<open>
  Lines 95 to 113 of \<^verbatim>\<open>Space.learn\<close> for the level at index \<open>i\<close>: read the samples, skip
  below ten, train, and overwrite the curve.
\<close>

definition learn_fit :: "'m Learner \<Rightarrow> Space \<Rightarrow> nat \<Rightarrow> Space \<times> fit" where
  "learn_fit lgb self i =
     (case learning_data self i of
        None \<Rightarrow> (self, Raised KeyError)
      | Some data \<Rightarrow>
          if length data < 10 then (self, Skipped)
          else
            (case train lgb data of
               Inl e \<Rightarrow> (self, Raised e)
             | Inr model \<Rightarrow>
                 (let level = levels self ! i
                  in case predict_from lgb model 0 (buckets level) (winning_curve level) of
                       (wc, ex) \<Rightarrow>
                         (self\<lparr>levels := (levels self)[i := level\<lparr>winning_curve := wc\<rparr>]\<rparr>,
                          case ex of Some e \<Rightarrow> Raised e | None \<Rightarrow> Fitted))))"

text \<open>Line 115: \<^verbatim>\<open>self.learning_data[i] = []\<close>.\<close>

definition learn_clear :: "Space \<Rightarrow> nat \<Rightarrow> Space" where
  "learn_clear self i = self\<lparr>learning_data := (learning_data self)(i \<mapsto> [])\<rparr>"

text \<open>
  \<^verbatim>\<open>Space.learn\<close>: the loop over \<^verbatim>\<open>enumerate(self.levels)\<close>. There is no \<^verbatim>\<open>try\<close> inside it,
  so a raise leaves the loop and the method.
\<close>

fun learn_levels :: "'m Learner \<Rightarrow> Space \<Rightarrow> nat list \<Rightarrow> Space outcome" where
  "learn_levels lgb self [] = (self, None)"
| "learn_levels lgb self (i # rest) =
     (case learn_fit lgb self i of
        (self1, Raised e) \<Rightarrow> (self1, Some e)
      | (self1, Skipped) \<Rightarrow> learn_levels lgb self1 rest
      | (self1, Fitted) \<Rightarrow> learn_levels lgb (learn_clear self1 i) rest)"

definition Space_learn :: "'m Learner \<Rightarrow> Space \<Rightarrow> Space outcome" where
  "Space_learn lgb self = learn_levels lgb self [0..<length (levels self)]"

text \<open>
  One round of the \<^verbatim>\<open>while True\<close> loop of \<^verbatim>\<open>background_learning\<close> in \<^verbatim>\<open>server.py\<close>:
  every space is asked to learn inside its own \<^verbatim>\<open>try\<close>; an exception is logged with the
  context and dropped. The result is the dict of spaces and the error log of the round.
\<close>

fun background_learning_round ::
  "'m Learner \<Rightarrow> (string \<times> Space) list \<Rightarrow> (string \<times> Space) list \<times> (string \<times> py_error) list" where
  "background_learning_round lgb [] = ([], [])"
| "background_learning_round lgb ((k, sp) # rest) =
     (case Space_learn lgb sp of
        (sp', ex) \<Rightarrow>
          (case background_learning_round lgb rest of
             (rest', logged) \<Rightarrow>
               ((k, sp') # rest',
                (case ex of Some e \<Rightarrow> (context_hash sp', e) # logged | None \<Rightarrow> logged))))"

section \<open>Construction of the grid\<close>

definition LAMBDA_MIN :: real where "LAMBDA_MIN = 0.1"
definition LAMBDA_MAX :: real where "LAMBDA_MAX = 1.8"
definition MIN_LEVEL_SIZE :: int where "MIN_LEVEL_SIZE = 1"
definition MIN_BUCKET_SIZE :: int where "MIN_BUCKET_SIZE = 5"
definition MIN_BUFFER_SIZE :: int where "MIN_BUFFER_SIZE = 10"

text \<open>The keys of \<^verbatim>\<open>cfg\<close> that the construction reads.\<close>

record Config =
  level_size :: int
  bucket_size :: int
  buffer_size :: int
  cfg_discount :: real

text \<open>
  The loop of \<^verbatim>\<open>linspace\<close>, \<^verbatim>\<open>lambdas[i] = lambdas[i - 1] + step\<close>, producing the entries
  after the one that holds \<open>prev\<close>.
\<close>

fun linspace_from :: "real \<Rightarrow> real \<Rightarrow> nat \<Rightarrow> real list" where
  "linspace_from prev step 0 = []"
| "linspace_from prev step (Suc n) = (prev + step) # linspace_from (prev + step) step n"

text \<open>\<^verbatim>\<open>linspace(level_size)\<close>; \<^verbatim>\<open>lambdas[0] = LAMBDA_MIN\<close> raises on the empty list.\<close>

definition linspace :: "int \<Rightarrow> py_error + real list" where
  "linspace n =
     (if n \<le> 0 then Inl IndexError
      else if n = 1 then Inr [LAMBDA_MIN]
      else (let step = (LAMBDA_MAX - LAMBDA_MIN) / real_of_int (n - 1)
            in Inr (LAMBDA_MIN # linspace_from LAMBDA_MIN step (nat n - 1))))"

text \<open>
  The random source is a parameter: \<open>rng k lam\<close> is what the \<open>k\<close>-th call of
  \<^verbatim>\<open>random.expovariate\<close> in the process returns when its argument is \<open>lam\<close>. The
  construction passes on the number of the next call.
\<close>

type_synonym rng = "nat \<Rightarrow> real \<Rightarrow> real"

subsection \<open>Double-precision arithmetic\<close>

text \<open>
  A Python float is an IEEE 754 double: a number \<open>m * 2 ^ e\<close> with an integer
  \<open>\<bar>m\<bar> < 2 ^ 53\<close> and \<open>- 1074 \<le> e\<close>. Each of \<^verbatim>\<open>+\<close>, \<^verbatim>\<open>-\<close>, \<^verbatim>\<open>*\<close>, \<^verbatim>\<open>/\<close> returns the
  exact result rounded to the nearest double, a tie going to the even \<open>m\<close>.

  \<open>round_half_even\<close> rounds to the nearest integer, ties to even. For \<open>a > 0\<close>,
  \<open>exponent a\<close> is the \<open>e\<close> with \<open>2 ^ e \<le> a < 2 ^ (e + 1)\<close>, found by halving \<open>a\<close> until it
  is below 2 or doubling it until it reaches 1; it stays between \<open>- 1022\<close>, where the
  subnormal numbers begin, and 1023. \<open>quantum x\<close> is the distance between the doubles around \<open>x\<close>,
  and \<open>binary64 x\<close> the multiple of it nearest to \<open>x\<close>.

  The largest double is \<open>2 ^ 1024 - 2 ^ 971\<close>; beyond it the rounded result is an infinity.
  Infinities and NaN have no counterpart here: \<open>binary64\<close> is the arithmetic of the source
  for results below that magnitude.
\<close>

definition round_half_even :: "real \<Rightarrow> int" where
  "round_half_even x =
     (let n = \<lfloor>x\<rfloor>; r = x - of_int n
      in if r < 1 / 2 then n
         else if 1 / 2 < r then n + 1
         else if even n then n else n + 1)"

fun halvings :: "nat \<Rightarrow> real \<Rightarrow> nat" where
  "halvings 0 a = 0"
| "halvings (Suc n) a = (if 2 \<le> a then Suc (halvings n (a / 2)) else 0)"

fun doublings :: "nat \<Rightarrow> real \<Rightarrow> nat" where
  "doublings 0 a = 0"
| "doublings (Suc n) a = (if a < 1 then Suc (doublings n (2 * a)) else 0)"

definition exponent :: "real \<Rightarrow> int" where
  "exponent a = (if 1 \<le> a then int (halvings 1023 a) else - int (doublings 1022 a))"

definition quantum :: "real \<Rightarrow> real" where
  "quantum x = 2 powi (exponent \<bar>x\<bar> - 52)"

definition binary64 :: "real \<Rightarrow> real" where
  "binary64 x = (if x = 0 then 0 else of_int (round_half_even (x / quantum x)) * quantum x)"

text \<open>The float operators; \<^verbatim>\<open>/\<close> is used below only after its divisor is known not to be zero.\<close>

definition float_add :: "real \<Rightarrow> real \<Rightarrow> real" where
  "float_add a b = binary64 (a + b)"

definition float_sub :: "real \<Rightarrow> real \<Rightarrow> real" where
  "float_sub a b = binary64 (a - b)"

definition float_mul :: "real \<Rightarrow> real \<Rightarrow> real" where
  "float_mul a b = binary64 (a * b)"

definition float_truediv :: "real \<Rightarrow> real \<Rightarrow> real" where
  "float_truediv a b = binary64 (a / b)"

subsection \<open>Bounds, buckets and levels\<close>

text \<open>
  \<^verbatim>\<open>generate_bucket_bounds(lambda_param, min_price, max_price, n_buckets)\<close>, drawing from call
  \<open>k\<close> on. \<^verbatim>\<open>bounds[0]\<close> raises on the empty list, and the float division raises when its
  divisor \<^verbatim>\<open>ma - mi\<close> is zero, which is when all draws are equal. Every operator of
  \<^verbatim>\<open>((val - mi) / (ma - mi)) * (max_price - min_price) + min_price\<close> is a float operation:
  the three differences, the quotient, the product and the sum.
\<close>

definition generate_bucket_bounds ::
  "rng \<Rightarrow> nat \<Rightarrow> real \<Rightarrow> real \<Rightarrow> real \<Rightarrow> int \<Rightarrow> py_error + real list" where
  "generate_bucket_bounds random k lambda_param min_price max_price n_buckets =
     (let bounds = sort (map (\<lambda>j. random (k + j) lambda_param) [0..<nat (n_buckets + 1)])
      in case bounds of
           [] \<Rightarrow> Inl IndexError
         | _ # _ \<Rightarrow>
             (let mi = hd bounds; ma = last bounds
              in if float_sub ma mi = 0 then Inl ZeroDivisionError
                 else Inr (map (\<lambda>val. float_add
                                        (float_mul (float_truediv (float_sub val mi) (float_sub ma mi))
                                                   (float_sub max_price min_price))
                                        min_price) bounds)))"

text \<open>
  \<^verbatim>\<open>new_buckets\<close>. \<^verbatim>\<open>bounds[:-1]\<close> and \<^verbatim>\<open>bounds[1:]\<close> have \<^verbatim>\<open>bucket_size\<close> elements
  whenever the bounds were produced, so the indices below are in range.
\<close>

definition new_buckets ::
  "rng \<Rightarrow> nat \<Rightarrow> real \<Rightarrow> real \<Rightarrow> real \<Rightarrow> Config \<Rightarrow> py_error + Bucket list" where
  "new_buckets random k lambda_param min_price max_price cfg =
     (case generate_bucket_bounds random k lambda_param min_price max_price (bucket_size cfg) of
        Inl e \<Rightarrow> Inl e
      | Inr bounds \<Rightarrow>
          (let lhs_list = butlast bounds; rhs_list = tl bounds
           in Inr (map (\<lambda>i. Bucket_init (lhs_list ! i) (rhs_list ! i)
                                (buffer_size cfg) (cfg_discount cfg))
                     [0..<nat (bucket_size cfg)])))"

text \<open>The loop of \<^verbatim>\<open>new_levels\<close> over the lambdas; each level takes the next draws.\<close>

fun new_levels_from ::
  "rng \<Rightarrow> nat \<Rightarrow> real \<Rightarrow> real \<Rightarrow> Config \<Rightarrow> real list \<Rightarrow> py_error + Level list" where
  "new_levels_from random k min_price max_price cfg [] = Inr []"
| "new_levels_from random k min_price max_price cfg (lam # rest) =
     (case new_buckets random k lam min_price max_price cfg of
        Inl e \<Rightarrow> Inl e
      | Inr bs \<Rightarrow>
          (case new_levels_from random (k + nat (bucket_size cfg + 1)) min_price max_price cfg rest of
             Inl e \<Rightarrow> Inl e
           | Inr lvls \<Rightarrow> Inr (Level_init bs # lvls)))"

definition new_levels :: "rng \<Rightarrow> nat \<Rightarrow> real \<Rightarrow> real \<Rightarrow> Config \<Rightarrow> py_error + Level list" where
  "new_levels random k min_price max_price cfg =
     (case linspace (level_size cfg) of
        Inl e \<Rightarrow> Inl e
      | Inr lambdas \<Rightarrow> new_levels_from random k min_price max_price cfg lambdas)"

text \<open>
  The checks of \<^verbatim>\<open>load_spaces\<close> on the configuration (lines 188 to 195), each raising
  \<^verbatim>\<open>ValueError\<close>, followed by the construction of the space of one description.
\<close>

definition load_space ::
  "rng \<Rightarrow> nat \<Rightarrow> Config \<Rightarrow> string \<Rightarrow> real \<Rightarrow> real \<Rightarrow> py_error + Space" where
  "load_space random k cfg ctx min_price max_price =
     (if level_size cfg < MIN_LEVEL_SIZE then Inl ValueError
      else if bucket_size cfg < MIN_BUCKET_SIZE then Inl ValueError
      else if buffer_size cfg < MIN_BUFFER_SIZE then Inl ValueError
      else if \<not> (0 \<le> cfg_discount cfg \<and> cfg_discount cfg \<le> 1) then Inl ValueError
      else (case new_levels random k min_price max_price cfg of
              Inl e \<Rightarrow> Inl e
            | Inr lvls \<Rightarrow> Inr (Space_init ctx lvls)))"

section \<open>The server\<close>

definition EXPLORATION_ROUNDS :: int where "EXPLORATION_ROUNDS = 3"

text \<open>An entry of \<^verbatim>\<open>request_store\<close>.\<close>

record Request_state =
  st_price :: real
  st_floor_price :: real
  attempts :: int
  impressions :: int
  st_context_hash :: string
  st_data_center :: string
  st_ad_format :: string
  st_pub_id :: string
  st_bundle_id :: string
  st_tag_id :: string
  st_cc :: string

text \<open>
  The module state: \<^verbatim>\<open>spaces_dict\<close> (a dict, in insertion order) and \<^verbatim>\<open>request_store\<close>.
\<close>

record Server =
  spaces_dict :: "(string \<times> Space) list"
  request_store :: "string \<rightharpoonup> Request_state"

text \<open>
  The JSON object of an \<^verbatim>\<open>/optimize\<close> request, one field per key that the handler reads;
  \<open>None\<close> is a key that is absent.
\<close>

record Optimize_json =
  j_id :: "string option"
  j_price :: "real option"
  j_floor_price :: "real option"
  j_ctx_hash :: "string option"
  j_data_center :: "string option"
  j_ext_ad_format :: "string option"
  j_app_publisher_id :: "string option"
  j_bundle_id :: "string option"
  j_tag_id :: "string option"
  j_device_geo_country :: "string option"

record Feedback_json =
  f_id :: "string option"
  f_price :: "real option"
  f_impression :: "bool option"

text \<open>
  What a handler answers: an error body with status 400, the two bodies with status 200,
  or an exception that escapes the handler.
\<close>

datatype response =
    Error400 string
  | Optimize200 real string
  | Feedback200 bool
  | Uncaught py_error

text \<open>\<^verbatim>\<open>', '.join(fields)\<close>\<close>

fun join_comma :: "string list \<Rightarrow> string" where
  "join_comma [] = []"
| "join_comma [x] = x"
| "join_comma (x # y # ys) = x @ '', '' @ join_comma (y # ys)"

definition get_or :: "'a option \<Rightarrow> 'a \<Rightarrow> 'a" where
  "get_or v d = (case v of None \<Rightarrow> d | Some x \<Rightarrow> x)"

text \<open>
  The handler \<^verbatim>\<open>optimize\<close>. Its argument is what \<^verbatim>\<open>request.get_json()\<close> returned, \<open>None\<close>
  for a body that is no JSON or is empty. The last case of the match on the two prices is
  never reached: a missing price is reported before.
\<close>

definition optimize :: "Server \<Rightarrow> Optimize_json option \<Rightarrow> Server \<times> response" where
  "optimize srv json =
     (case json of
        None \<Rightarrow> (srv, Error400 ''Invalid JSON'')
      | Some data \<Rightarrow>
          (let req_id = get_or (j_id data) [];
               ctx_hash = get_or (j_ctx_hash data) ''default_ctx'';
               dc = get_or (j_data_center data) [];
               ad_format = get_or (j_ext_ad_format data) [];
               pub_id = get_or (j_app_publisher_id data) [];
               bundle_id = get_or (j_bundle_id data) [];
               tag_id = get_or (j_tag_id data) [];
               cc = get_or (j_device_geo_country data) [];
               missing_fields =
                 (if req_id = [] then [''id''] else [])
                 @ (if j_price data = None then [''price''] else [])
                 @ (if j_floor_price data = None then [''floor_price''] else [])
           in if missing_fields \<noteq> [] then
                (srv, Error400 (''Missing required fields: '' @ join_comma missing_fields))
              else if map_of (spaces_dict srv) ctx_hash = None then
                (srv, Error400 (''Unknown context '' @ ctx_hash))
              else
                (case (j_price data, j_floor_price data) of
                   (Some price, Some floor_price) \<Rightarrow>
                     if price < floor_price then (srv, Optimize200 0 ''error'')
                     else
                       (let store1 =
                              (if request_store srv req_id = None then
                                 (request_store srv)(req_id \<mapsto>
                                    \<lparr>st_price = price, st_floor_price = floor_price,
                                     attempts = 0, impressions = 0,
                                     st_context_hash = ctx_hash, st_data_center = dc,
                                     st_ad_format = ad_format, st_pub_id = pub_id,
                                     st_bundle_id = bundle_id, st_tag_id = tag_id, st_cc = cc\<rparr>)
                               else request_store srv)
                        in case store1 req_id of
                             None \<Rightarrow> (srv\<lparr>request_store := store1\<rparr>, Uncaught KeyError)
                           | Some state0 \<Rightarrow>
                               (let state = state0\<lparr>attempts := attempts state0 + 1\<rparr>;
                                    candidate_price = price * 0.9;
                                    optimized_price = max candidate_price floor_price;
                                    status =
                                      (if attempts state \<le> EXPLORATION_ROUNDS then ''explored''
                                       else if impressions state > 0 then ''optimized''
                                       else ''explored'')
                                in (srv\<lparr>request_store := store1(req_id \<mapsto> state)\<rparr>,
                                    Optimize200 optimized_price status)))
                 | _ \<Rightarrow> (srv, Error400 (''Missing required fields: ''
                                          @ join_comma missing_fields)))))"

text \<open>
  The handler \<^verbatim>\<open>feedback\<close>. The entry of the request is incremented before the space is
  looked up and updated, so an exception from there leaves the increment in place.
\<close>

definition feedback :: "Server \<Rightarrow> Feedback_json option \<Rightarrow> Server \<times> response" where
  "feedback srv json =
     (case json of
        None \<Rightarrow> (srv, Error400 ''Invalid JSON'')
      | Some data \<Rightarrow>
          (let req_id = get_or (f_id data) [];
               missing_fields =
                 (if req_id = [] then [''id''] else [])
                 @ (if f_price data = None then [''price''] else [])
                 @ (if f_impression data = None then [''impression''] else [])
           in if missing_fields \<noteq> [] then
                (srv, Error400 (''Missing fields: '' @ join_comma missing_fields))
              else
                (case (f_price data, f_impression data) of
                   (Some price, Some impression) \<Rightarrow>
                     (case request_store srv req_id of
                        None \<Rightarrow> (srv, Feedback200 False)
                      | Some state0 \<Rightarrow>
                          (let state = state0\<lparr>impressions := impressions state0 + 1\<rparr>;
                               srv1 = srv\<lparr>request_store := (request_store srv)(req_id \<mapsto> state)\<rparr>;
                               ctx_hash = st_context_hash state
                           in case map_of (spaces_dict srv1) ctx_hash of
                                None \<Rightarrow> (srv1, Uncaught KeyError)
                              | Some sp \<Rightarrow>
                                  (let buckets_indices =
                                         map (\<lambda>lvl. Level_sample_buckets lvl price) (levels sp)
                                   in case Space_update_feedback sp buckets_indices impression of
                                        (sp', ex) \<Rightarrow>
                                          (srv1\<lparr>spaces_dict :=
                                                  AList.update ctx_hash sp' (spaces_dict srv1)\<rparr>,
                                           case ex of
                                             Some e \<Rightarrow> Uncaught e
                                           | None \<Rightarrow> Feedback200 True))))
                 | _ \<Rightarrow> (srv, Error400 (''Missing fields: '' @ join_comma missing_fields)))))"

section \<open>Interleavings of feedback and recalibration\<close>

text \<open>
  The request threads and the background thread share a space. \<^verbatim>\<open>Space.lock\<close> is a
  \<^verbatim>\<open>threading.Lock\<close>: a flag that \<^verbatim>\<open>with self.lock\<close> sets on entry, waiting while it is
  set, and clears on exit. \<^verbatim>\<open>update_feedback\<close> runs its loop inside \<^verbatim>\<open>with self.lock\<close>;
  \<^verbatim>\<open>learn\<close> contains no \<^verbatim>\<open>with self.lock\<close> and no other use of the lock. The steps below are
  the pieces of the two methods between which the other thread may run: entering the block,
  the loop and leaving the block for \<^verbatim>\<open>update_feedback\<close>; lines 95 to 113 and line 115 of
  \<^verbatim>\<open>learn\<close> for one level. The source allows finer interleavings than these (training runs
  outside the interpreter lock), so every schedule here is one that the program can take.
\<close>

datatype thread_step =
    Feedback_acquire
  | Feedback_body "int list" bool
  | Feedback_release
  | Learn_fit nat
  | Learn_clear nat

record Locked_space =
  the_space :: Space
  lock_held :: bool

text \<open>One step; \<open>None\<close> when the step cannot be taken (the thread waits for the lock).\<close>

fun do_step :: "'m Learner \<Rightarrow> thread_step \<Rightarrow> Locked_space \<Rightarrow> Locked_space option" where
  "do_step lgb Feedback_acquire c =
     (if lock_held c then None else Some (c\<lparr>lock_held := True\<rparr>))"
| "do_step lgb (Feedback_body buckets_indices impression) c =
     (if lock_held c then
        Some (c\<lparr>the_space :=
                  fst (Space_update_feedback (the_space c) buckets_indices impression)\<rparr>)
      else None)"
| "do_step lgb Feedback_release c =
     (if lock_held c then Some (c\<lparr>lock_held := False\<rparr>) else None)"
| "do_step lgb (Learn_fit i) c = Some (c\<lparr>the_space := fst (learn_fit lgb (the_space c) i)\<rparr>)"
| "do_step lgb (Learn_clear i) c = Some (c\<lparr>the_space := learn_clear (the_space c) i\<rparr>)"

fun run_schedule ::
  "'m Learner \<Rightarrow> thread_step list \<Rightarrow> Locked_space \<Rightarrow> Locked_space option" where
  "run_schedule lgb [] c = Some c"
| "run_schedule lgb (s # rest) c =
     (case do_step lgb s c of None \<Rightarrow> None | Some c' \<Rightarrow> run_schedule lgb rest c')"

section \<open>Concrete inputs\<close>

text \<open>
  A level with two buckets over the range from 1 to 2, a space and a server for the context
  \<^verbatim>\<open>default_ctx\<close>, requests for the id \<^verbatim>\<open>r1\<close>, and a server that has already seen this id.
\<close>

definition ex_level :: Level where
  "ex_level = Level_init [Bucket_init 1 (3 / 2) 10 (9 / 10), Bucket_init (3 / 2) 2 10 (9 / 10)]"

definition ex_space :: Space where
  "ex_space = Space_init ''default_ctx'' [ex_level]"

definition ex_server :: Server where
  "ex_server = \<lparr>spaces_dict = [(''default_ctx'', ex_space)], request_store = Map.empty\<rparr>"

definition ex_optimize :: "real \<Rightarrow> real \<Rightarrow> Optimize_json" where
  "ex_optimize price floor_price =
     \<lparr>j_id = Some ''r1'', j_price = Some price, j_floor_price = Some floor_price,
      j_ctx_hash = None, j_data_center = None, j_ext_ad_format = None,
      j_app_publisher_id = None, j_bundle_id = None, j_tag_id = None,
      j_device_geo_country = None\<rparr>"

definition ex_feedback :: "string \<Rightarrow> Feedback_json" where
  "ex_feedback rid = \<lparr>f_id = Some rid, f_price = Some (3 / 2), f_impression = Some True\<rparr>"

definition ex_server_seen :: Server where
  "ex_server_seen =
     ex_server\<lparr>request_store :=
       [''r1'' \<mapsto> \<lparr>st_price = 10, st_floor_price = 9, attempts = 5, impressions = 2,
                    st_context_hash = ''default_ctx'', st_data_center = [], st_ad_format = [],
                    st_pub_id = [], st_bundle_id = [], st_tag_id = [], st_cc = []\<rparr>]\<rparr>"

text \<open>
  Samples of both labels, and a learner that raises when every sample it is given is a win
  and otherwise predicts from the number of samples it was trained on.
\<close>

definition ex_win :: Sample where
  "ex_win = \<lparr>s_pr = 1 / 2, s_price = 5 / 4, s_impression = 1\<rparr>"

definition ex_loss :: Sample where
  "ex_loss = \<lparr>s_pr = 1 / 2, s_price = 7 / 4, s_impression = 0\<rparr>"

definition ex_lgb :: "nat Learner" where
  "ex_lgb = \<lparr>train = (\<lambda>data. if list_all (\<lambda>s. s_impression s = 1) data then Inl LightGBMError
                              else Inr (length data)),
            predict = (\<lambda>model p price. Inr (real model / 40))\<rparr>"

text \<open>
  Two spaces of two levels. In the first, level 0 holds ten wins (training raises) and
  level 1 holds ten mixed samples; in the second, level 0 holds three samples only.
\<close>

definition ex_space_failing :: Space where
  "ex_space_failing =
     \<lparr>context_hash = ''default_ctx'', levels = [ex_level, ex_level],
      learning_data = [0 \<mapsto> replicate 10 ex_win, 1 \<mapsto> replicate 5 ex_win @ replicate 5 ex_loss]\<rparr>"

definition ex_space_mixed :: Space where
  "ex_space_mixed =
     \<lparr>context_hash = ''default_ctx'', levels = [ex_level, ex_level],
      learning_data = [0 \<mapsto> replicate 3 ex_win, 1 \<mapsto> replicate 5 ex_win @ replicate 5 ex_loss]\<rparr>"

text \<open>
  A random source whose \<open>k\<close>-th draw is \<open>k\<close>, and a configuration with one level of five
  buckets.
\<close>

definition ex_random :: rng where
  "ex_random k lam = real k"

definition ex_cfg :: Config where
  "ex_cfg = \<lparr>level_size = 1, bucket_size = 5, buffer_size = 10, cfg_discount = 9 / 10\<rparr>"

text \<open>
  The level that the construction makes of them over the range of the literals \<^verbatim>\<open>0.2\<close> and
  \<^verbatim>\<open>0.9\<close>. Its bounds print as \<^verbatim>\<open>0.2\<close>, \<^verbatim>\<open>0.33999999999999997\<close>, \<^verbatim>\<open>0.48\<close>, \<^verbatim>\<open>0.62\<close>,
  \<^verbatim>\<open>0.76\<close>, \<^verbatim>\<open>0.8999999999999999\<close>.
\<close>

definition ex_level_02_09 :: Level where
  "ex_level_02_09 = Level_init
     [Bucket_init (3602879701896397 / 2 ^ 54) (3062447746611937 / 2 ^ 53) 10 (9 / 10),
      Bucket_init (3062447746611937 / 2 ^ 53) (1080863910568919 / 2 ^ 51) 10 (9 / 10),
      Bucket_init (1080863910568919 / 2 ^ 51) (5584463537939415 / 2 ^ 53) 10 (9 / 10),
      Bucket_init (5584463537939415 / 2 ^ 53) (3422735716801577 / 2 ^ 52) 10 (9 / 10),
      Bucket_init (3422735716801577 / 2 ^ 52) (2026619832316723 / 2 ^ 51) 10 (9 / 10)]"

text \<open>
  The same over the range of the literals \<^verbatim>\<open>0.03\<close> and \<^verbatim>\<open>0.29\<close>. Its bounds print as
  \<^verbatim>\<open>0.03\<close>, \<^verbatim>\<open>0.082\<close>, \<^verbatim>\<open>0.134\<close>, \<^verbatim>\<open>0.186\<close>, \<^verbatim>\<open>0.23800000000000002\<close>,
  \<^verbatim>\<open>0.29000000000000004\<close>.
\<close>

definition ex_level_003_029 :: Level where
  "ex_level_003_029 = Level_init
     [Bucket_init (1080863910568919 / 2 ^ 55) (5908722711110091 / 2 ^ 56) 10 (9 / 10),
      Bucket_init (5908722711110091 / 2 ^ 56) (1206964700135293 / 2 ^ 53) 10 (9 / 10),
      Bucket_init (1206964700135293 / 2 ^ 53) (3350678122763649 / 2 ^ 54) 10 (9 / 10),
      Bucket_init (3350678122763649 / 2 ^ 54) (8574853690513425 / 2 ^ 55) 10 (9 / 10),
      Bucket_init (8574853690513425 / 2 ^ 55) (326510972984361 / 2 ^ 50) 10 (9 / 10)]"

text \<open>
  A space of one level with ten mixed samples and a free lock; the first bucket and the
  sample after one winning feedback at the price 5/4; and the state in which the level has
  the curve \<open>[c, c]\<close>, the given samples, that bucket, and a free lock.
\<close>

definition ex_space_ten :: Space where
  "ex_space_ten =
     \<lparr>context_hash = ''default_ctx'', levels = [ex_level],
      learning_data = [0 \<mapsto> replicate 5 ex_win @ replicate 5 ex_loss]\<rparr>"

definition ex_locked :: Locked_space where
  "ex_locked = \<lparr>the_space = ex_space_ten, lock_held = False\<rparr>"

definition ex_bucket_hit :: Bucket where
  "ex_bucket_hit =
     \<lparr>lhs = 1, rhs = 3 / 2, alpha = 2, beta = 1, buffer = [True], sizeB = 10,
      discount = 9 / 10, pr = 31 / 60, update_qty = 1\<rparr>"

definition ex_sample_hit :: Sample where
  "ex_sample_hit = \<lparr>s_pr = 31 / 60, s_price = 5 / 4, s_impression = 1\<rparr>"

definition ex_outcome :: "real \<Rightarrow> Sample list \<Rightarrow> Locked_space option" where
  "ex_outcome c samples =
     Some \<lparr>the_space =
             \<lparr>context_hash = ''default_ctx'',
              levels = [\<lparr>buckets = [ex_bucket_hit, Bucket_init (3 / 2) 2 10 (9 / 10)],
                         winning_curve = [c, c]\<rparr>],
              learning_data = [0 \<mapsto> samples]\<rparr>,
           lock_held = False\<rparr>"

section \<open>Properties of the bucket estimator\<close>

lemma filter_butlast_last:
  "xs \<noteq> [] \<Longrightarrow>
   length (filter P xs) = length (filter P (butlast xs)) + (if P (last xs) then 1 else 0)"
  by (induction xs) auto

lemma Bucket_init_inv: "1 \<le> sz \<Longrightarrow> Bucket_inv (Bucket_init l r sz d)"
  by (simp add: Bucket_inv_def Bucket_init_def)

text \<open>One call keeps the invariant, does not raise, and changes no configuration field.\<close>

lemma Bucket_update_inv:
  assumes "Bucket_inv b"
  shows "snd (Bucket_update b x) = None \<and> Bucket_inv (fst (Bucket_update b x))
     \<and> update_qty (fst (Bucket_update b x)) = update_qty b + 1
     \<and> sizeB (fst (Bucket_update b x)) = sizeB b
     \<and> discount (fst (Bucket_update b x)) = discount b
     \<and> lhs (fst (Bucket_update b x)) = lhs b \<and> rhs (fst (Bucket_update b x)) = rhs b"
proof (cases "int (length (buffer b)) \<ge> sizeB b")
  case True
  with assms have ne: "buffer b \<noteq> []" by (auto simp: Bucket_inv_def)
  from filter_butlast_last[OF ne, of "\<lambda>x. x"] filter_butlast_last[OF ne, of "\<lambda>x. \<not> x"]
  show ?thesis using assms True ne
    by (auto simp: Bucket_update_def Bucket_inv_def Let_def)
next
  case False
  then show ?thesis using assms
    by (auto simp: Bucket_update_def Bucket_inv_def Let_def)
qed

lemma convex_unit:
  fixes d p q :: real
  assumes "0 \<le> d" "d \<le> 1" "0 \<le> p" "p \<le> 1" "0 \<le> q" "q \<le> 1"
  shows "0 \<le> d * p + (1 - d) * q \<and> d * p + (1 - d) * q \<le> 1"
proof
  show "0 \<le> d * p + (1 - d) * q" using assms by simp
  have "d * p \<le> d * 1" using assms by (intro mult_left_mono) auto
  moreover have "(1 - d) * q \<le> (1 - d) * 1" using assms by (intro mult_left_mono) auto
  ultimately show "d * p + (1 - d) * q \<le> 1" by simp
qed

text \<open>The new estimate blends the old one with a ratio that lies in the unit interval.\<close>

lemma Bucket_update_pr:
  assumes "Bucket_inv b"
  shows "\<exists>q. 0 \<le> q \<and> q \<le> 1 \<and>
     pr (fst (Bucket_update b x)) = discount b * pr b + (1 - discount b) * q"
proof -
  let ?b' = "fst (Bucket_update b x)"
  have inv': "Bucket_inv ?b'" using Bucket_update_inv[OF assms] by simp
  have a: "1 \<le> alpha ?b'" and bb: "1 \<le> beta ?b'" using inv' by (auto simp: Bucket_inv_def)
  have eq: "pr ?b' = discount b * pr b + (1 - discount b) * (alpha ?b' / (alpha ?b' + beta ?b'))"
  proof (cases "int (length (buffer b)) \<ge> sizeB b")
    case True
    with assms have ne: "buffer b \<noteq> []" by (auto simp: Bucket_inv_def)
    from filter_butlast_last[OF ne, of "\<lambda>x. x"] filter_butlast_last[OF ne, of "\<lambda>x. \<not> x"]
    show ?thesis using assms True ne
      by (auto simp: Bucket_update_def Bucket_inv_def Let_def)
  next
    case False
    then show ?thesis using assms
      by (auto simp: Bucket_update_def Bucket_inv_def Let_def)
  qed
  have "0 \<le> alpha ?b' / (alpha ?b' + beta ?b')" using a bb by simp
  moreover have "alpha ?b' / (alpha ?b' + beta ?b') \<le> 1" using a bb by simp
  ultimately show ?thesis using eq by blast
qed

lemma Bucket_update_ok:
  assumes "Bucket_ok b"
  shows "Bucket_ok (fst (Bucket_update b x))"
proof -
  from assms have inv: "Bucket_inv b" by (simp add: Bucket_ok_def)
  obtain q where q: "0 \<le> q" "q \<le> 1"
    "pr (fst (Bucket_update b x)) = discount b * pr b + (1 - discount b) * q"
    using Bucket_update_pr[OF inv] by blast
  from convex_unit[of "discount b" "pr b" q] assms q
  show ?thesis using Bucket_update_inv[OF inv, of x] assms by (simp add: Bucket_ok_def)
qed

lemma Bucket_updates_inv:
  "Bucket_inv b \<Longrightarrow>
     snd (Bucket_updates b xs) = None \<and> Bucket_inv (fst (Bucket_updates b xs))
     \<and> update_qty (fst (Bucket_updates b xs)) = update_qty b + int (length xs)
     \<and> sizeB (fst (Bucket_updates b xs)) = sizeB b"
proof (induction xs arbitrary: b)
  case Nil
  then show ?case by simp
next
  case (Cons x xs)
  from Bucket_update_inv[OF Cons.prems, of x]
  obtain b' where b': "Bucket_update b x = (b', None)" "Bucket_inv b'"
    "update_qty b' = update_qty b + 1" "sizeB b' = sizeB b"
    by (cases "Bucket_update b x") auto
  from Cons.IH[OF b'(2)] b' show ?case by simp
qed

lemma Bucket_updates_ok:
  "Bucket_ok b \<Longrightarrow> Bucket_ok (fst (Bucket_updates b xs))"
proof (induction xs arbitrary: b)
  case Nil
  then show ?case by simp
next
  case (Cons x xs)
  from Cons.prems have inv: "Bucket_inv b" by (simp add: Bucket_ok_def)
  from Bucket_update_inv[OF inv, of x]
  obtain b' where b': "Bucket_update b x = (b', None)"
    by (cases "Bucket_update b x") auto
  from Bucket_update_ok[OF Cons.prems, of x] b' have "Bucket_ok b'" by simp
  from Cons.IH[OF this] b' show ?case by simp
qed

text \<open>
  C2. A bucket made by the constructor with a window capacity of at least one, after any
  finite sequence of \<^verbatim>\<open>update\<close> calls (none of which raises): \<^verbatim>\<open>update_qty\<close> is the number
  of calls, \<^verbatim>\<open>alpha + beta\<close> is the length of the buffer plus two, which is the minimum of
  the number of calls and the capacity plus two, and the buffer is within the capacity.
  As the sequence is arbitrary, this is the state after each call of a longer sequence.
\<close>

theorem Bucket_update_counts:
  assumes "1 \<le> sz"
  shows "snd (Bucket_updates (Bucket_init l r sz d) xs) = None \<and>
     (let b = fst (Bucket_updates (Bucket_init l r sz d) xs) in
        update_qty b = int (length xs) \<and> sizeB b = sz \<and>
        alpha b + beta b = real (length (buffer b)) + 2 \<and>
        real (length (buffer b)) + 2 = real_of_int (min (update_qty b) (sizeB b)) + 2 \<and>
        int (length (buffer b)) \<le> sizeB b)"
proof -
  let ?b = "fst (Bucket_updates (Bucket_init l r sz d) xs)"
  have i0: "Bucket_inv (Bucket_init l r sz d)" using assms by (rule Bucket_init_inv)
  from Bucket_updates_inv[OF i0, of xs]
  have e: "snd (Bucket_updates (Bucket_init l r sz d) xs) = None" and inv: "Bucket_inv ?b"
    and q: "update_qty ?b = int (length xs)" and s: "sizeB ?b = sz"
    by (simp_all add: Bucket_init_def)
  have len: "length (filter (\<lambda>x. x) (buffer ?b)) + length (filter (\<lambda>x. \<not> x) (buffer ?b))
       = length (buffer ?b)"
    using sum_length_filter_compl[of "\<lambda>x. x" "buffer ?b"] by simp
  have ab: "alpha ?b + beta ?b = real (length (buffer ?b)) + 2"
    using inv len by (simp add: Bucket_inv_def)
  have m: "int (length (buffer ?b)) = min (update_qty ?b) (sizeB ?b)"
    using inv by (simp add: Bucket_inv_def)
  have m': "real (length (buffer ?b)) = real_of_int (min (update_qty ?b) (sizeB ?b))"
    using m by (metis of_int_of_nat_eq)
  show ?thesis using e q s ab m m' by (simp add: Let_def)
qed

theorem Bucket_update_counts_witness:
  "(1::int) \<le> 2 \<and>
   Bucket_updates (Bucket_init 1 2 2 (1 / 2)) [True, False, True] =
     (\<lparr>lhs = 1, rhs = 2, alpha = 2, beta = 2, buffer = [True, False], sizeB = 2,
       discount = 1 / 2, pr = 25 / 48, update_qty = 3\<rparr>, None) \<and>
   alpha (fst (Bucket_updates (Bucket_init 1 2 2 (1 / 2)) [True, False, True]))
     + beta (fst (Bucket_updates (Bucket_init 1 2 2 (1 / 2)) [True, False, True])) = 2 + 2"
  using Bucket_update_counts[of 2 1 2 "1 / 2" "[True, False, True]"]
  by (simp add: Let_def Bucket_update_def Bucket_init_def)

text \<open>
  C7. With a discount in the unit interval (and a window capacity of at least one), the
  estimate \<^verbatim>\<open>pr\<close> of a bucket made by the constructor, 0.5 at the start, is in the unit
  interval after any finite sequence of \<^verbatim>\<open>update\<close> calls, and no call raises.
\<close>

theorem Bucket_pr_in_unit:
  assumes "1 \<le> sz" "0 \<le> d" "d \<le> 1"
  shows "snd (Bucket_updates (Bucket_init l r sz d) xs) = None \<and>
     0 \<le> pr (fst (Bucket_updates (Bucket_init l r sz d) xs)) \<and>
     pr (fst (Bucket_updates (Bucket_init l r sz d) xs)) \<le> 1"
proof -
  have i0: "Bucket_inv (Bucket_init l r sz d)" using assms(1) by (rule Bucket_init_inv)
  have "Bucket_ok (Bucket_init l r sz d)"
    using i0 assms by (simp add: Bucket_ok_def) (simp add: Bucket_init_def)
  from Bucket_updates_ok[OF this, of xs] Bucket_updates_inv[OF i0, of xs]
  show ?thesis by (simp add: Bucket_ok_def)
qed

theorem Bucket_pr_in_unit_witness:
  "(1::int) \<le> 10 \<and> (0::real) \<le> 9 / 10 \<and> (9 / 10::real) \<le> 1 \<and>
   pr (fst (Bucket_updates (Bucket_init 1 2 10 (9 / 10)) [True, True])) = 27 / 50 \<and>
   0 \<le> pr (fst (Bucket_updates (Bucket_init 1 2 10 (9 / 10)) [True, True])) \<and>
   pr (fst (Bucket_updates (Bucket_init 1 2 10 (9 / 10)) [True, True])) \<le> 1"
  using Bucket_pr_in_unit[of 10 "9 / 10" 1 2 "[True, True]"]
  by (simp add: Let_def Bucket_update_def Bucket_init_def)

section \<open>Properties of the request handlers\<close>

text \<open>What a well-formed \<^verbatim>\<open>optimize\<close> request with a known context and a price at or above
  the floor does: the handler as one equation.\<close>

lemma optimize_valid:
  assumes "j_id data = Some rid" "rid \<noteq> []" "j_price data = Some p" "j_floor_price data = Some f"
    and "map_of (spaces_dict srv) (get_or (j_ctx_hash data) ''default_ctx'') \<noteq> None"
    and "f \<le> p"
  shows "optimize srv (Some data) =
     (let state0 = (case request_store srv rid of
                      None \<Rightarrow> \<lparr>st_price = p, st_floor_price = f, attempts = 0, impressions = 0,
                                st_context_hash = get_or (j_ctx_hash data) ''default_ctx'',
                                st_data_center = get_or (j_data_center data) [],
                                st_ad_format = get_or (j_ext_ad_format data) [],
                                st_pub_id = get_or (j_app_publisher_id data) [],
                                st_bundle_id = get_or (j_bundle_id data) [],
                                st_tag_id = get_or (j_tag_id data) [],
                                st_cc = get_or (j_device_geo_country data) []\<rparr>
                    | Some e \<Rightarrow> e);
          state = state0\<lparr>attempts := attempts state0 + 1\<rparr>
      in (srv\<lparr>request_store := (request_store srv)(rid \<mapsto> state)\<rparr>,
          Optimize200 (max (p * 0.9) f)
            (if attempts state \<le> 3 then ''explored''
             else if impressions state > 0 then ''optimized'' else ''explored'')))"
proof (cases "request_store srv rid")
  case None
  then show ?thesis using assms
    by (simp add: optimize_def get_or_def Let_def EXPLORATION_ROUNDS_def)
next
  case (Some e)
  then show ?thesis using assms
    by (simp add: optimize_def get_or_def Let_def EXPLORATION_ROUNDS_def)
qed

lemma optimize_step:
  assumes "j_id data = Some rid" "rid \<noteq> []" "j_price data = Some p" "j_floor_price data = Some f"
    and "map_of (spaces_dict srv) (get_or (j_ctx_hash data) ''default_ctx'') \<noteq> None"
    and "f \<le> p"
  shows "\<exists>e'. request_store (fst (optimize srv (Some data))) rid = Some e'
      \<and> spaces_dict (fst (optimize srv (Some data))) = spaces_dict srv
      \<and> attempts e' = (case request_store srv rid of None \<Rightarrow> 1 | Some e \<Rightarrow> attempts e + 1)
      \<and> impressions e' = (case request_store srv rid of None \<Rightarrow> 0 | Some e \<Rightarrow> impressions e)
      \<and> st_context_hash e' = (case request_store srv rid of
            None \<Rightarrow> get_or (j_ctx_hash data) ''default_ctx'' | Some e \<Rightarrow> st_context_hash e)
      \<and> snd (optimize srv (Some data)) =
           Optimize200 (max (p * 0.9) f)
             (if attempts e' \<le> 3 then ''explored''
              else if impressions e' > 0 then ''optimized'' else ''explored'')"
  unfolding optimize_valid[OF assms] Let_def
  by (cases "request_store srv rid") simp_all

text \<open>Feedback for a known id adds one impression to its entry and keeps every context.\<close>

lemma feedback_entry:
  assumes "f_id fdata = Some rid" "rid \<noteq> []" "f_price fdata = Some fprice"
    "f_impression fdata = Some imp" "request_store srv rid = Some e"
  shows "request_store (fst (feedback srv (Some fdata)))
           = (request_store srv)(rid \<mapsto> e\<lparr>impressions := impressions e + 1\<rparr>)
       \<and> (map_of (spaces_dict srv) c \<noteq> None \<longrightarrow>
             map_of (spaces_dict (fst (feedback srv (Some fdata)))) c \<noteq> None)"
  using assms
  by (auto simp add: feedback_def get_or_def Let_def update_conv' split: option.splits prod.splits)

text \<open>
  The handlers start an entry with zero impressions and only ever add one, so no entry of
  a request store that they have built has a negative count.
\<close>

lemma optimize_keeps_impressions:
  assumes "\<forall>r e. request_store srv r = Some e \<longrightarrow> 0 \<le> impressions e"
    and "request_store (fst (optimize srv json)) r = Some e"
  shows "0 \<le> impressions e"
  using assms
  by (auto simp: optimize_def Let_def split: option.splits if_splits prod.splits)

lemma feedback_keeps_impressions:
  assumes "\<forall>r e. request_store srv r = Some e \<longrightarrow> 0 \<le> impressions e"
    and "request_store (fst (feedback srv json)) r = Some e"
  shows "0 \<le> impressions e"
  using assms
  by (auto simp: feedback_def Let_def split: option.splits if_splits prod.splits)

text \<open>
  C4. A well-formed \<^verbatim>\<open>optimize\<close> request for a known context with a price at or above the
  floor. First part: when the entry of the id (if there is one) has no negative impression
  count, as every entry made by the handlers has, the answer carries the status
  \<^verbatim>\<open>explored\<close> when the incremented attempts are at most 3, and above 3 it is
  \<^verbatim>\<open>explored\<close> for zero impressions and \<^verbatim>\<open>optimized\<close> otherwise. Second part: for an id
  that has no entry yet, the first, second, third and fourth call answer \<^verbatim>\<open>explored\<close>, and
  a fourth call that follows a feedback call for the id answers \<^verbatim>\<open>optimized\<close>.
\<close>

theorem optimize_status:
  assumes v: "j_id data = Some rid" "rid \<noteq> []" "j_price data = Some p" "j_floor_price data = Some f"
    and ctx: "map_of (spaces_dict srv) (get_or (j_ctx_hash data) ''default_ctx'') \<noteq> None"
    and fp: "f \<le> p"
    and fb: "f_id fdata = Some rid" "f_price fdata = Some fprice" "f_impression fdata = Some imp"
  shows "((\<forall>e. request_store srv rid = Some e \<longrightarrow> 0 \<le> impressions e) \<longrightarrow>
           (\<exists>e' st. request_store (fst (optimize srv (Some data))) rid = Some e' \<and>
              snd (optimize srv (Some data)) = Optimize200 (max (p * 0.9) f) st \<and>
              attempts e' = (case request_store srv rid of None \<Rightarrow> 1 | Some e \<Rightarrow> attempts e + 1) \<and>
              impressions e' = (case request_store srv rid of None \<Rightarrow> 0 | Some e \<Rightarrow> impressions e) \<and>
              st = (if attempts e' \<le> 3 then ''explored''
                    else if impressions e' = 0 then ''explored'' else ''optimized'')))
       \<and> (request_store srv rid = None \<longrightarrow>
           (let s1 = fst (optimize srv (Some data));
                s2 = fst (optimize s1 (Some data));
                s3 = fst (optimize s2 (Some data));
                q = max (p * 0.9) f
            in snd (optimize srv (Some data)) = Optimize200 q ''explored'' \<and>
               snd (optimize s1 (Some data)) = Optimize200 q ''explored'' \<and>
               snd (optimize s2 (Some data)) = Optimize200 q ''explored'' \<and>
               snd (optimize s3 (Some data)) = Optimize200 q ''explored'' \<and>
               snd (optimize (fst (feedback s3 (Some fdata))) (Some data))
                 = Optimize200 q ''optimized''))"
proof (intro conjI impI)
  assume nn: "\<forall>e. request_store srv rid = Some e \<longrightarrow> 0 \<le> impressions e"
  from optimize_step[OF v ctx fp] obtain e' where e':
    "request_store (fst (optimize srv (Some data))) rid = Some e'"
    "attempts e' = (case request_store srv rid of None \<Rightarrow> 1 | Some e \<Rightarrow> attempts e + 1)"
    "impressions e' = (case request_store srv rid of None \<Rightarrow> 0 | Some e \<Rightarrow> impressions e)"
    "snd (optimize srv (Some data)) =
       Optimize200 (max (p * 0.9) f)
         (if attempts e' \<le> 3 then ''explored''
          else if impressions e' > 0 then ''optimized'' else ''explored'')"
    by blast
  have "0 \<le> impressions e'" using nn e'(3) by (cases "request_store srv rid") auto
  then have "(impressions e' > 0) = (impressions e' \<noteq> 0)" by auto
  with e' show "\<exists>e' st. request_store (fst (optimize srv (Some data))) rid = Some e' \<and>
              snd (optimize srv (Some data)) = Optimize200 (max (p * 0.9) f) st \<and>
              attempts e' = (case request_store srv rid of None \<Rightarrow> 1 | Some e \<Rightarrow> attempts e + 1) \<and>
              impressions e' = (case request_store srv rid of None \<Rightarrow> 0 | Some e \<Rightarrow> impressions e) \<and>
              st = (if attempts e' \<le> 3 then ''explored''
                    else if impressions e' = 0 then ''explored'' else ''optimized'')"
    by auto
next
  assume none: "request_store srv rid = None"
  define s1 where "s1 = fst (optimize srv (Some data))"
  define s2 where "s2 = fst (optimize s1 (Some data))"
  define s3 where "s3 = fst (optimize s2 (Some data))"
  define t where "t = fst (feedback s3 (Some fdata))"
  let ?q = "max (p * 0.9) f"
  from optimize_step[OF v ctx fp] none obtain e1 where e1:
    "request_store s1 rid = Some e1" "spaces_dict s1 = spaces_dict srv"
    "attempts e1 = 1" "impressions e1 = 0"
    "snd (optimize srv (Some data)) = Optimize200 ?q ''explored''"
    unfolding s1_def by auto
  have c1: "map_of (spaces_dict s1) (get_or (j_ctx_hash data) ''default_ctx'') \<noteq> None"
    using ctx e1(2) by simp
  from optimize_step[OF v c1 fp] e1 obtain e2 where e2:
    "request_store s2 rid = Some e2" "spaces_dict s2 = spaces_dict srv"
    "attempts e2 = 2" "impressions e2 = 0"
    "snd (optimize s1 (Some data)) = Optimize200 ?q ''explored''"
    unfolding s2_def by auto
  have c2: "map_of (spaces_dict s2) (get_or (j_ctx_hash data) ''default_ctx'') \<noteq> None"
    using ctx e2(2) by simp
  from optimize_step[OF v c2 fp] e2 obtain e3 where e3:
    "request_store s3 rid = Some e3" "spaces_dict s3 = spaces_dict srv"
    "attempts e3 = 3" "impressions e3 = 0"
    "snd (optimize s2 (Some data)) = Optimize200 ?q ''explored''"
    unfolding s3_def by auto
  have c3: "map_of (spaces_dict s3) (get_or (j_ctx_hash data) ''default_ctx'') \<noteq> None"
    using ctx e3(2) by simp
  from optimize_step[OF v c3 fp] e3
  have r4: "snd (optimize s3 (Some data)) = Optimize200 ?q ''explored''" by auto
  from feedback_entry[OF fb(1) v(2) fb(2,3) e3(1), of "get_or (j_ctx_hash data) ''default_ctx''"] c3
  have t1: "request_store t rid = Some (e3\<lparr>impressions := impressions e3 + 1\<rparr>)"
    and ct: "map_of (spaces_dict t) (get_or (j_ctx_hash data) ''default_ctx'') \<noteq> None"
    unfolding t_def by auto
  from optimize_step[OF v ct fp] t1 e3
  have r5: "snd (optimize t (Some data)) = Optimize200 ?q ''optimized''" by auto
  show "let s1 = fst (optimize srv (Some data));
                s2 = fst (optimize s1 (Some data));
                s3 = fst (optimize s2 (Some data));
                q = max (p * 0.9) f
            in snd (optimize srv (Some data)) = Optimize200 q ''explored'' \<and>
               snd (optimize s1 (Some data)) = Optimize200 q ''explored'' \<and>
               snd (optimize s2 (Some data)) = Optimize200 q ''explored'' \<and>
               snd (optimize s3 (Some data)) = Optimize200 q ''explored'' \<and>
               snd (optimize (fst (feedback s3 (Some fdata))) (Some data))
                 = Optimize200 q ''optimized''"
    using e1(5) e2(5) e3(5) r4 r5 unfolding Let_def s1_def s2_def s3_def t_def by simp
qed

theorem optimize_status_witness:
  "snd (optimize ex_server (Some (ex_optimize 10 9))) = Optimize200 9 ''explored'' \<and>
   snd (optimize (fst (optimize (fst (optimize (fst (optimize ex_server (Some (ex_optimize 10 9))))
      (Some (ex_optimize 10 9)))) (Some (ex_optimize 10 9)))) (Some (ex_optimize 10 9)))
     = Optimize200 9 ''explored'' \<and>
   snd (optimize (fst (feedback (fst (optimize (fst (optimize (fst (optimize ex_server
      (Some (ex_optimize 10 9)))) (Some (ex_optimize 10 9)))) (Some (ex_optimize 10 9))))
      (Some (ex_feedback ''r1'')))) (Some (ex_optimize 10 9)))
     = Optimize200 9 ''optimized'' \<and>
   snd (optimize ex_server_seen (Some (ex_optimize 10 9))) = Optimize200 9 ''optimized''"
proof -
  have fresh:
    "snd (optimize ex_server (Some (ex_optimize 10 9))) = Optimize200 9 ''explored'' \<and>
     snd (optimize (fst (optimize (fst (optimize (fst (optimize ex_server
        (Some (ex_optimize 10 9)))) (Some (ex_optimize 10 9)))) (Some (ex_optimize 10 9))))
        (Some (ex_optimize 10 9)))
       = Optimize200 9 ''explored'' \<and>
     snd (optimize (fst (feedback (fst (optimize (fst (optimize (fst (optimize ex_server
        (Some (ex_optimize 10 9)))) (Some (ex_optimize 10 9)))) (Some (ex_optimize 10 9))))
        (Some (ex_feedback ''r1'')))) (Some (ex_optimize 10 9)))
       = Optimize200 9 ''optimized''"
    using optimize_status[of "ex_optimize 10 9" "''r1''" 10 9 ex_server "ex_feedback ''r1''"
        "3 / 2" True]
    by (simp add: ex_optimize_def ex_feedback_def ex_server_def get_or_def Let_def)
  have seen: "snd (optimize ex_server_seen (Some (ex_optimize 10 9))) = Optimize200 9 ''optimized''"
    using optimize_status[of "ex_optimize 10 9" "''r1''" 10 9 ex_server_seen
        "ex_feedback ''r1''" "3 / 2" True]
    by (auto simp add: ex_optimize_def ex_feedback_def ex_server_def ex_server_seen_def
        get_or_def)
  from fresh seen show ?thesis by simp
qed

text \<open>
  C5. A well-formed \<^verbatim>\<open>optimize\<close> request for a known context whose price is below the
  floor is answered with the price 0 and the status \<^verbatim>\<open>error\<close>, whatever the request store
  holds for the id, and the server state, the request store included, is returned unchanged.
\<close>

theorem optimize_below_floor:
  assumes "j_id data = Some rid" "rid \<noteq> []" "j_price data = Some p" "j_floor_price data = Some f"
    and "map_of (spaces_dict srv) (get_or (j_ctx_hash data) ''default_ctx'') \<noteq> None"
    and "p < f"
  shows "optimize srv (Some data) = (srv, Optimize200 0 ''error'')"
  using assms by (simp add: optimize_def get_or_def Let_def)

theorem optimize_below_floor_witness:
  "(8::real) < 9 \<and> request_store ex_server_seen ''r1'' \<noteq> None \<and>
   optimize ex_server_seen (Some (ex_optimize 8 9)) = (ex_server_seen, Optimize200 0 ''error'')"
  using optimize_below_floor[of "ex_optimize 8 9" "''r1''" 8 9 ex_server_seen]
  by (simp add: ex_optimize_def ex_server_seen_def ex_server_def get_or_def)

text \<open>
  C10. A well-formed \<^verbatim>\<open>optimize\<close> request for a known context with
  \<open>0 \<le> floor_price \<le> price\<close> is answered with a status other than \<^verbatim>\<open>error\<close> and with the
  price \<open>max (0.9 * price) floor_price\<close>, which lies between the floor and the price.
\<close>

theorem optimize_price_bounds:
  assumes "j_id data = Some rid" "rid \<noteq> []" "j_price data = Some p" "j_floor_price data = Some f"
    and "map_of (spaces_dict srv) (get_or (j_ctx_hash data) ''default_ctx'') \<noteq> None"
    and "0 \<le> f" "f \<le> p"
  shows "\<exists>srv' q st. optimize srv (Some data) = (srv', Optimize200 q st) \<and> st \<noteq> ''error''
     \<and> q = max (p * 0.9) f \<and> f \<le> q \<and> q \<le> p"
  using assms by (auto simp add: optimize_def get_or_def Let_def split: option.splits)

theorem optimize_price_bounds_witness:
  "(0::real) \<le> 2 \<and> (2::real) \<le> 10 \<and>
   snd (optimize ex_server (Some (ex_optimize 10 2))) = Optimize200 9 ''explored'' \<and>
   (2::real) \<le> 9 \<and> (9::real) \<le> 10"
  using optimize_price_bounds[of "ex_optimize 10 2" "''r1''" 10 2 ex_server]
  by (simp add: ex_optimize_def ex_server_def get_or_def optimize_def Let_def
      EXPLORATION_ROUNDS_def)

text \<open>
  C6. A well-formed \<^verbatim>\<open>feedback\<close> request whose id has no entry in the request store is
  answered with \<^verbatim>\<open>ack = False\<close>; no exception escapes, and the server state (request store,
  buckets, winning curves and sample lists) is returned unchanged.
\<close>

theorem feedback_unknown_request:
  assumes "f_id data = Some rid" "rid \<noteq> []" "f_price data = Some p" "f_impression data = Some imp"
    and "request_store srv rid = None"
  shows "feedback srv (Some data) = (srv, Feedback200 False)"
  using assms by (simp add: feedback_def get_or_def Let_def)

theorem feedback_unknown_request_witness:
  "request_store ex_server_seen ''unknown'' = None \<and>
   feedback ex_server_seen (Some (ex_feedback ''unknown'')) = (ex_server_seen, Feedback200 False)"
  using feedback_unknown_request[of "ex_feedback ''unknown''" "''unknown''" "3 / 2" True
    ex_server_seen]
  by (simp add: ex_feedback_def ex_server_seen_def ex_server_def)

section \<open>Properties of the recalibration\<close>

lemma learn_fit_data: "learning_data (fst (learn_fit lgb self j)) = learning_data self"
  by (simp add: learn_fit_def Let_def split: option.splits sum.splits prod.splits)

lemma learn_fit_length: "length (levels (fst (learn_fit lgb self j))) = length (levels self)"
  by (simp add: learn_fit_def Let_def split: option.splits sum.splits prod.splits)

lemma learn_fit_other: "j \<noteq> i \<Longrightarrow> levels (fst (learn_fit lgb self j)) ! i = levels self ! i"
  by (simp add: learn_fit_def Let_def split: option.splits sum.splits prod.splits)

lemma learn_fit_short:
  "learning_data self i = Some data \<Longrightarrow> length data < 10 \<Longrightarrow>
   learn_fit lgb self i = (self, Skipped)"
  by (simp add: learn_fit_def)

lemma learn_fit_train_raises:
  "learning_data self i = Some data \<Longrightarrow> 10 \<le> length data \<Longrightarrow> train lgb data = Inl e \<Longrightarrow>
   learn_fit lgb self i = (self, Raised e)"
  by (simp add: learn_fit_def)

lemma learn_fit_long_not_skipped:
  "learning_data self i = Some data \<Longrightarrow> 10 \<le> length data \<Longrightarrow>
   snd (learn_fit lgb self i) \<noteq> Skipped"
  by (simp add: learn_fit_def Let_def split: option.splits sum.splits prod.splits)

text \<open>A level with fewer than ten samples is left alone by any part of the loop.\<close>

lemma learn_levels_short:
  "learning_data self i = Some data \<Longrightarrow> length data < 10 \<Longrightarrow>
   learning_data (fst (learn_levels lgb self js)) i = Some data \<and>
   levels (fst (learn_levels lgb self js)) ! i = levels self ! i"
proof (induction js arbitrary: self)
  case Nil
  then show ?case by simp
next
  case (Cons j js)
  obtain s1 r where f: "learn_fit lgb self j = (s1, r)" by (cases "learn_fit lgb self j")
  have d1: "learning_data s1 = learning_data self" using learn_fit_data[of lgb self j] f by simp
  show ?case
  proof (cases "j = i")
    case True
    with Cons.prems f have "s1 = self" "r = Skipped"
      using learn_fit_short[of self i data lgb] by auto
    with Cons f True show ?thesis by simp
  next
    case False
    have l1: "levels s1 ! i = levels self ! i"
      using learn_fit_other[OF False, of lgb self] f by simp
    have p1: "learning_data s1 i = Some data" using d1 Cons.prems by simp
    have p2: "learning_data (learn_clear s1 j) i = Some data"
      "levels (learn_clear s1 j) ! i = levels s1 ! i"
      using p1 False by (auto simp: learn_clear_def)
    show ?thesis
    proof (cases r)
      case Skipped
      with f Cons.IH[OF p1 Cons.prems(2)] l1 show ?thesis by simp
    next
      case Fitted
      with f Cons.IH[OF p2(1) Cons.prems(2)] l1 p2(2) show ?thesis by simp
    next
      case (Raised e)
      with f p1 l1 show ?thesis by simp
    qed
  qed
qed

text \<open>Indices outside the part of the loop that ran are untouched.\<close>

lemma learn_levels_frame:
  "i \<notin> set js \<Longrightarrow>
   learning_data (fst (learn_levels lgb self js)) i = learning_data self i \<and>
   levels (fst (learn_levels lgb self js)) ! i = levels self ! i"
proof (induction js arbitrary: self)
  case Nil
  then show ?case by simp
next
  case (Cons j js)
  obtain s1 r where f: "learn_fit lgb self j = (s1, r)" by (cases "learn_fit lgb self j")
  from Cons.prems have ne: "j \<noteq> i" and ni: "i \<notin> set js" by auto
  have d1: "learning_data s1 = learning_data self" using learn_fit_data[of lgb self j] f by simp
  have l1: "levels s1 ! i = levels self ! i" using learn_fit_other[OF ne, of lgb self] f by simp
  have p2: "learning_data (learn_clear s1 j) i = learning_data s1 i"
    "levels (learn_clear s1 j) ! i = levels s1 ! i"
    using ne by (auto simp: learn_clear_def)
  show ?case
  proof (cases r)
    case Skipped
    with f Cons.IH[OF ni, of s1] l1 d1 show ?thesis by simp
  next
    case Fitted
    with f Cons.IH[OF ni, of "learn_clear s1 j"] l1 d1 p2 show ?thesis by simp
  next
    case (Raised e)
    with f d1 l1 show ?thesis by simp
  qed
qed

lemma learn_levels_append:
  "learn_levels lgb self (xs @ ys) =
     (case learn_levels lgb self xs of
        (s, None) \<Rightarrow> learn_levels lgb s ys
      | (s, Some e) \<Rightarrow> (s, Some e))"
proof (induction xs arbitrary: self)
  case Nil
  then show ?case by simp
next
  case (Cons j js)
  obtain s1 r where f: "learn_fit lgb self j = (s1, r)" by (cases "learn_fit lgb self j")
  show ?case using f Cons.IH[of s1] Cons.IH[of "learn_clear s1 j"] by (cases r) simp_all
qed

text \<open>A pass that does not raise clears every level it visited that had ten samples.\<close>

lemma learn_levels_clears:
  "learn_levels lgb self js = (s', None) \<Longrightarrow> i \<in> set js \<Longrightarrow>
   learning_data self i = Some data \<Longrightarrow> 10 \<le> length data \<Longrightarrow> learning_data s' i = Some []"
proof (induction js arbitrary: self)
  case Nil
  then show ?case by simp
next
  case (Cons j js)
  obtain s1 r where f: "learn_fit lgb self j = (s1, r)" by (cases "learn_fit lgb self j")
  have d1: "learning_data s1 = learning_data self" using learn_fit_data[of lgb self j] f by simp
  show ?case
  proof (cases "j = i")
    case True
    have "r \<noteq> Skipped"
      using learn_fit_long_not_skipped[OF Cons.prems(3,4), of lgb] f True by simp
    moreover have "\<forall>e. r \<noteq> Raised e" using Cons.prems(1) f by auto
    ultimately have r: "r = Fitted" by (cases r) auto
    have c: "learning_data (learn_clear s1 j) i = Some []"
      using True by (simp add: learn_clear_def)
    from Cons.prems(1) f r have "learn_levels lgb (learn_clear s1 j) js = (s', None)" by simp
    with learn_levels_short[OF c, of lgb js] show ?thesis by simp
  next
    case False
    with Cons.prems have ir: "i \<in> set js" by simp
    have p1: "learning_data s1 i = Some data" using d1 Cons.prems by simp
    have p2: "learning_data (learn_clear s1 j) i = Some data"
      using p1 False by (simp add: learn_clear_def)
    show ?thesis
    proof (cases r)
      case Skipped
      with f Cons.prems(1) have "learn_levels lgb s1 js = (s', None)" by simp
      from Cons.IH[OF this ir p1 Cons.prems(4)] show ?thesis .
    next
      case Fitted
      with f Cons.prems(1) have "learn_levels lgb (learn_clear s1 j) js = (s', None)" by simp
      from Cons.IH[OF this ir p2 Cons.prems(4)] show ?thesis .
    next
      case (Raised e)
      with f Cons.prems(1) show ?thesis by simp
    qed
  qed
qed

lemma upt_split: "i < n \<Longrightarrow> [0..<n] = [0..<i] @ i # [Suc i..<n]"
proof -
  assume "i < n"
  then obtain k where n: "n = i + k" "0 < k" by (metis less_imp_add_positive)
  have "[0..<i + k] = [0..<i] @ [i..<i + k]" by (rule upt_add_eq_append) simp
  moreover have "[i..<i + k] = i # [Suc i..<i + k]" using n(2) by (intro upt_conv_Cons) simp
  ultimately show ?thesis using n(1) by simp
qed

text \<open>
  When training raises at level \<open>i\<close>, the method ends there: the state is the one the
  levels before \<open>i\<close> left, the samples of level \<open>i\<close> are kept, and no level from \<open>i\<close> on is
  touched.
\<close>

lemma learn_train_raises:
  assumes i: "i < length (levels sp)"
    and before: "learn_levels lgb sp [0..<i] = (s1, None)"
    and d: "learning_data sp i = Some data" "10 \<le> length data"
    and t: "train lgb data = Inl e"
  shows "Space_learn lgb sp = (s1, Some e) \<and> learning_data s1 i = Some data \<and>
         (\<forall>j\<ge>i. levels s1 ! j = levels sp ! j \<and> learning_data s1 j = learning_data sp j)"
proof -
  have fr: "\<forall>j\<ge>i. levels s1 ! j = levels sp ! j \<and> learning_data s1 j = learning_data sp j"
  proof (intro allI impI)
    fix j assume "i \<le> j"
    then have "j \<notin> set [0..<i]" by simp
    from learn_levels_frame[OF this, of lgb sp] before
    show "levels s1 ! j = levels sp ! j \<and> learning_data s1 j = learning_data sp j" by simp
  qed
  then have d1: "learning_data s1 i = Some data" using d by simp
  have split: "[0..<length (levels sp)] = [0..<i] @ i # [Suc i..<length (levels sp)]"
    using i by (rule upt_split)
  have tail: "learn_levels lgb s1 (i # [Suc i..<length (levels sp)]) = (s1, Some e)"
    using learn_fit_train_raises[OF d1 d(2) t] by simp
  have "learn_levels lgb sp ([0..<i] @ i # [Suc i..<length (levels sp)]) = (s1, Some e)"
    unfolding learn_levels_append before using tail by simp
  then have "Space_learn lgb sp = (s1, Some e)"
    unfolding Space_learn_def using split by simp
  with d1 fr show ?thesis by simp
qed

text \<open>One round asks every space to learn, whatever the other spaces raised.\<close>

lemma background_learning_round_each:
  "map fst (fst (background_learning_round lgb spaces)) = map fst spaces \<and>
   map snd (fst (background_learning_round lgb spaces))
     = map (\<lambda>sp. fst (Space_learn lgb sp)) (map snd spaces)"
proof (induction spaces)
  case Nil
  then show ?case by simp
next
  case (Cons a spaces)
  obtain k sp where a: "a = (k, sp)" by (cases a)
  obtain sp' ex where l: "Space_learn lgb sp = (sp', ex)" by (cases "Space_learn lgb sp")
  obtain rest' logged where r: "background_learning_round lgb spaces = (rest', logged)"
    by (cases "background_learning_round lgb spaces")
  show ?case using Cons a l r by simp
qed

text \<open>The two example spaces, run through \<^verbatim>\<open>learn\<close>.\<close>

lemma ex_learn_failing:
  "Space_learn ex_lgb ex_space_failing = (ex_space_failing, Some LightGBMError)"
  by (simp add: Space_learn_def ex_space_failing_def learn_fit_def ex_lgb_def list_all_iff
      ex_win_def)

lemma ex_learn_mixed:
  "Space_learn ex_lgb ex_space_mixed =
   (ex_space_mixed\<lparr>levels := [ex_level, ex_level\<lparr>winning_curve := [1 / 4, 1 / 4]\<rparr>],
       learning_data := [0 \<mapsto> replicate 3 ex_win, 1 \<mapsto> []]\<rparr>, None)"
  by (simp add: Space_learn_def ex_space_mixed_def learn_fit_def ex_lgb_def learn_clear_def
      ex_level_def Level_init_def Bucket_init_def ex_win_def ex_loss_def Let_def list_all_iff)

text \<open>
  C8. A level whose sample list holds fewer than ten samples is not changed by
  \<^verbatim>\<open>Space.learn\<close>, whatever happens at the other levels: its sample list, its buckets and
  its winning curve are the same afterwards.
\<close>

theorem learn_below_ten_noop:
  assumes "learning_data sp i = Some data" "length data < 10"
  shows "learning_data (fst (Space_learn lgb sp)) i = Some data \<and>
         levels (fst (Space_learn lgb sp)) ! i = levels sp ! i \<and>
         winning_curve (levels (fst (Space_learn lgb sp)) ! i) = winning_curve (levels sp ! i)"
  using learn_levels_short[OF assms, of lgb "[0..<length (levels sp)]"]
  by (simp add: Space_learn_def)

theorem learn_below_ten_noop_witness:
  "learning_data ex_space_mixed 0 = Some (replicate 3 ex_win) \<and>
   length (replicate 3 ex_win) < 10 \<and>
   learning_data (fst (Space_learn ex_lgb ex_space_mixed)) 0 = Some (replicate 3 ex_win) \<and>
   levels (fst (Space_learn ex_lgb ex_space_mixed)) ! 0 = levels ex_space_mixed ! 0 \<and>
   winning_curve (levels (fst (Space_learn ex_lgb ex_space_mixed)) ! 0) = [1 / 2, 1 / 2]"
  using learn_below_ten_noop[of ex_space_mixed 0 "replicate 3 ex_win" ex_lgb]
  by (simp add: ex_space_mixed_def ex_level_def Level_init_def)

text \<open>
  C1 as stated fails. In the first example space training raises at level 0: after
  \<^verbatim>\<open>learn\<close> the ten samples of level 0 are still there, and level 1, whose ten samples
  train without error, has not been recalibrated (samples kept, curve at its initial
  values); a whole round of the background task leaves the space as it was and logs the
  error.
\<close>

theorem learn_failure_counterexample:
  "Space_learn ex_lgb ex_space_failing = (ex_space_failing, Some LightGBMError) \<and>
   learning_data ex_space_failing 0 = Some (replicate 10 ex_win) \<and>
   length (replicate 10 ex_win) = 10 \<and>
   learning_data (fst (Space_learn ex_lgb ex_space_failing)) 0 \<noteq> Some [] \<and>
   learning_data ex_space_failing 1 = Some (replicate 5 ex_win @ replicate 5 ex_loss) \<and>
   train ex_lgb (replicate 5 ex_win @ replicate 5 ex_loss) = Inr 10 \<and>
   learning_data (fst (Space_learn ex_lgb ex_space_failing)) 1 \<noteq> Some [] \<and>
   winning_curve (levels (fst (Space_learn ex_lgb ex_space_failing)) ! 1) = [1 / 2, 1 / 2] \<and>
   background_learning_round ex_lgb [(''default_ctx'', ex_space_failing)] =
     ([(''default_ctx'', ex_space_failing)], [(''default_ctx'', LightGBMError)])"
  by (simp add: ex_learn_failing)
     (simp add: ex_space_failing_def ex_lgb_def ex_level_def Level_init_def list_all_iff
        ex_win_def ex_loss_def)

text \<open>
  C1 as amended. (1) When \<^verbatim>\<open>Space.learn\<close> returns without raising, every level that held
  at least ten samples has an empty sample list afterwards. (2) When training raises for
  level \<open>i\<close> (ten samples or more), the exception leaves \<^verbatim>\<open>Space.learn\<close>: the state is the
  one the levels before \<open>i\<close> left behind, the samples of level \<open>i\<close> are kept, and level
  \<open>i\<close> and all later levels of the space are untouched in this pass. (3) A round of the
  background task runs \<^verbatim>\<open>learn\<close> on every space, whatever another space raised.
\<close>

theorem learn_clears_unless_raised:
  "(Space_learn lgb sp = (sp', None) \<and> i < length (levels sp) \<and>
      learning_data sp i = Some data \<and> 10 \<le> length data
      \<longrightarrow> learning_data sp' i = Some [])
   \<and> (i < length (levels sp) \<and> learn_levels lgb sp [0..<i] = (s1, None) \<and>
      learning_data sp i = Some data \<and> 10 \<le> length data \<and> train lgb data = Inl e
      \<longrightarrow> Space_learn lgb sp = (s1, Some e) \<and> learning_data s1 i = Some data \<and>
          (\<forall>j\<ge>i. levels s1 ! j = levels sp ! j \<and> learning_data s1 j = learning_data sp j))
   \<and> map fst (fst (background_learning_round lgb spaces)) = map fst spaces
   \<and> map snd (fst (background_learning_round lgb spaces))
       = map (\<lambda>sp. fst (Space_learn lgb sp)) (map snd spaces)"
proof (intro conjI impI)
  assume a: "Space_learn lgb sp = (sp', None) \<and> i < length (levels sp) \<and>
      learning_data sp i = Some data \<and> 10 \<le> length data"
  then have "i \<in> set [0..<length (levels sp)]" by simp
  with a show "learning_data sp' i = Some []"
    using learn_levels_clears[of lgb sp "[0..<length (levels sp)]" sp' i data]
    by (simp add: Space_learn_def)
next
  assume b: "i < length (levels sp) \<and> learn_levels lgb sp [0..<i] = (s1, None) \<and>
      learning_data sp i = Some data \<and> 10 \<le> length data \<and> train lgb data = Inl e"
  then have r: "Space_learn lgb sp = (s1, Some e) \<and> learning_data s1 i = Some data \<and>
         (\<forall>j\<ge>i. levels s1 ! j = levels sp ! j \<and> learning_data s1 j = learning_data sp j)"
    using learn_train_raises[of i sp lgb s1 data e] by simp
  from r show "Space_learn lgb sp = (s1, Some e)" by simp
  from r show "learning_data s1 i = Some data" by simp
  from r show "\<forall>j\<ge>i. levels s1 ! j = levels sp ! j \<and> learning_data s1 j = learning_data sp j"
    by simp
next
  show "map fst (fst (background_learning_round lgb spaces)) = map fst spaces"
    using background_learning_round_each[of lgb spaces] by simp
  show "map snd (fst (background_learning_round lgb spaces))
       = map (\<lambda>sp. fst (Space_learn lgb sp)) (map snd spaces)"
    using background_learning_round_each[of lgb spaces] by simp
qed

theorem learn_clears_unless_raised_witness:
  "learning_data ex_space_mixed 1 = Some (replicate 5 ex_win @ replicate 5 ex_loss) \<and>
   snd (Space_learn ex_lgb ex_space_mixed) = None \<and>
   learning_data (fst (Space_learn ex_lgb ex_space_mixed)) 1 = Some [] \<and>
   train ex_lgb (replicate 10 ex_win) = Inl LightGBMError \<and>
   Space_learn ex_lgb ex_space_failing = (ex_space_failing, Some LightGBMError) \<and>
   learning_data (fst (Space_learn ex_lgb ex_space_failing)) 1
     = Some (replicate 5 ex_win @ replicate 5 ex_loss)"
  using learn_clears_unless_raised[where lgb = ex_lgb and sp = ex_space_mixed
      and sp' = "fst (Space_learn ex_lgb ex_space_mixed)" and i = 1
      and data = "replicate 5 ex_win @ replicate 5 ex_loss" and ?s1.0 = ex_space_mixed
      and e = LightGBMError and spaces = "[]"]
    learn_clears_unless_raised[where lgb = ex_lgb and sp = ex_space_failing
      and sp' = ex_space_failing and i = 0
      and data = "replicate 10 ex_win" and ?s1.0 = ex_space_failing
      and e = LightGBMError and spaces = "[]"]
  by (simp add: ex_learn_mixed ex_learn_failing)
     (simp add: ex_space_mixed_def ex_space_failing_def ex_lgb_def list_all_iff ex_win_def)

section \<open>Properties of the grid\<close>

text \<open>\<^verbatim>\<open>sample_buckets\<close> answers \<open>-1\<close> when no bucket contains the price.\<close>

lemma sample_buckets_from_none:
  "(\<forall>b\<in>set bs. \<not> (lhs b \<le> p \<and> p \<le> rhs b)) \<Longrightarrow> sample_buckets_from i bs p = - 1"
  by (induction bs arbitrary: i) auto

text \<open>The scan returns the first index whose bucket contains the price.\<close>

lemma sample_buckets_from_first:
  "k < length bs \<Longrightarrow> lhs (bs ! k) \<le> p \<and> p \<le> rhs (bs ! k) \<Longrightarrow>
   (\<forall>j<k. \<not> (lhs (bs ! j) \<le> p \<and> p \<le> rhs (bs ! j))) \<Longrightarrow>
   sample_buckets_from i bs p = i + int k"
proof (induction bs arbitrary: i k)
  case Nil
  then show ?case by simp
next
  case (Cons b bs)
  show ?case
  proof (cases k)
    case 0
    with Cons.prems show ?thesis by simp
  next
    case (Suc k')
    with Cons.prems have nb: "\<not> (lhs b \<le> p \<and> p \<le> rhs b)" by fastforce
    have k': "k' < length bs" "lhs (bs ! k') \<le> p \<and> p \<le> rhs (bs ! k')"
      using Cons.prems Suc by auto
    have "\<forall>j<k'. \<not> (lhs (bs ! j) \<le> p \<and> p \<le> rhs (bs ! j))"
    proof (intro allI impI)
      fix j assume "j < k'"
      then have "Suc j < k" using Suc by simp
      with Cons.prems(3) show "\<not> (lhs (bs ! j) \<le> p \<and> p \<le> rhs (bs ! j))" by fastforce
    qed
    from Cons.IH[OF k' this, of "i + 1"] nb Suc show ?thesis by simp
  qed
qed

text \<open>The rounding at a literal: the exponent search unfolds as far as it goes.\<close>

lemma halvings_numeral:
  "halvings (numeral k) a = (if 2 \<le> a then Suc (halvings (pred_numeral k) (a / 2)) else 0)"
  by (simp add: numeral_eq_Suc)

lemma doublings_numeral:
  "doublings (numeral k) a = (if a < 1 then Suc (doublings (pred_numeral k) (2 * a)) else 0)"
  by (simp add: numeral_eq_Suc)

lemmas binary64_eval = binary64_def quantum_def exponent_def round_half_even_def Let_def
  halvings_numeral doublings_numeral

lemmas float_eval = float_add_def float_sub_def float_mul_def float_truediv_def

lemma binary64_0: "binary64 0 = 0"
  by (simp add: binary64_def)

lemma binary64_1: "binary64 1 = 1"
  by (simp add: binary64_eval)

text \<open>The doubles that the literals of the two ranges denote.\<close>

lemma binary64_literals:
  "binary64 (2 / 10) = 3602879701896397 / 2 ^ 54"
  "binary64 (9 / 10) = 8106479329266893 / 2 ^ 53"
  "binary64 (3 / 100) = 1080863910568919 / 2 ^ 55"
  "binary64 (29 / 100) = 5224175567749775 / 2 ^ 54"
  by (simp_all add: binary64_eval)

text \<open>
  The bounds that \<^verbatim>\<open>generate_bucket_bounds\<close> returns, whatever the draws: there is one more
  than the number of buckets. For the least draw the quotient is 0, so the first bound is
  \<open>0 + min_price\<close>. For the greatest draw the quotient is exactly 1, so the last bound is
  the rounded sum of the rounded difference \<open>max_price - min_price\<close> and \<open>min_price\<close>.
\<close>

lemma generate_bucket_bounds_shape:
  assumes g: "generate_bucket_bounds random k lam mn mx n = Inr xs" and n: "0 \<le> n"
  shows "length xs = nat n + 1 \<and> hd xs = float_add 0 mn \<and>
         last xs = float_add (float_mul 1 (float_sub mx mn)) mn"
proof -
  define bounds where "bounds = sort (map (\<lambda>j. random (k + j) lam) [0..<nat (n + 1)])"
  define mi where "mi = hd bounds"
  define ma where "ma = last bounds"
  define f where "f = (\<lambda>val. float_add
      (float_mul (float_truediv (float_sub val mi) (float_sub ma mi)) (float_sub mx mn)) mn)"
  have len: "length bounds = nat n + 1" using n by (simp add: bounds_def nat_add_distrib)
  then have ne: "bounds \<noteq> []" by auto
  from g ne have nz: "float_sub ma mi \<noteq> 0" and xs: "xs = map f bounds"
    unfolding generate_bucket_bounds_def bounds_def[symmetric] Let_def mi_def ma_def f_def
    by (auto split: list.splits if_splits)
  have "float_truediv (float_sub mi mi) (float_sub ma mi) = 0"
    by (simp add: float_truediv_def float_sub_def binary64_0)
  then have "f mi = float_add 0 mn" by (simp add: f_def float_mul_def binary64_0)
  then have h: "hd xs = float_add 0 mn" using ne by (simp add: xs hd_map mi_def)
  have "float_truediv (float_sub ma mi) (float_sub ma mi) = 1"
    using nz by (simp add: float_truediv_def binary64_1)
  then have "f ma = float_add (float_mul 1 (float_sub mx mn)) mn" by (simp add: f_def)
  then have l: "last xs = float_add (float_mul 1 (float_sub mx mn)) mn"
    using ne by (simp add: xs last_map ma_def)
  from len h l show ?thesis by (simp add: xs)
qed

lemma new_buckets_shape:
  assumes nb: "new_buckets random k lam mn mx cfg = Inr bs" and n: "0 \<le> bucket_size cfg"
  shows "\<exists>xs. length xs = nat (bucket_size cfg) + 1 \<and> hd xs = float_add 0 mn \<and>
           last xs = float_add (float_mul 1 (float_sub mx mn)) mn \<and>
           length bs = nat (bucket_size cfg) \<and>
           (\<forall>i<nat (bucket_size cfg). lhs (bs ! i) = xs ! i \<and> rhs (bs ! i) = xs ! Suc i)"
proof -
  from nb obtain xs where
    g: "generate_bucket_bounds random k lam mn mx (bucket_size cfg) = Inr xs"
    and bs: "bs = map (\<lambda>i. Bucket_init (butlast xs ! i) (tl xs ! i) (buffer_size cfg)
                          (cfg_discount cfg)) [0..<nat (bucket_size cfg)]"
    by (auto simp: new_buckets_def Let_def split: sum.splits)
  from generate_bucket_bounds_shape[OF g n]
  have sh: "length xs = nat (bucket_size cfg) + 1" "hd xs = float_add 0 mn"
    "last xs = float_add (float_mul 1 (float_sub mx mn)) mn"
    by auto
  have "\<forall>i<nat (bucket_size cfg). lhs (bs ! i) = xs ! i \<and> rhs (bs ! i) = xs ! Suc i"
    using sh(1) by (auto simp: bs Bucket_init_def nth_butlast nth_tl)
  moreover have "length bs = nat (bucket_size cfg)" by (simp add: bs)
  ultimately show ?thesis using sh by blast
qed

text \<open>Every level of the result was made by \<^verbatim>\<open>Level(new_buckets(...))\<close>.\<close>

lemma new_levels_from_members:
  "new_levels_from random k mn mx cfg lams = Inr lvls \<Longrightarrow> lvl \<in> set lvls \<Longrightarrow>
   \<exists>k' lam bs. new_buckets random k' lam mn mx cfg = Inr bs \<and> lvl = Level_init bs"
proof (induction lams arbitrary: k lvls)
  case Nil
  then show ?case by simp
next
  case (Cons lam lams)
  from Cons.prems(1) obtain bs rest where
    b: "new_buckets random k lam mn mx cfg = Inr bs"
    and r: "new_levels_from random (k + nat (bucket_size cfg + 1)) mn mx cfg lams = Inr rest"
    and l: "lvls = Level_init bs # rest"
    by (auto split: sum.splits)
  show ?case
  proof (cases "lvl = Level_init bs")
    case True
    with b show ?thesis by blast
  next
    case False
    with Cons.prems(2) l have "lvl \<in> set rest" by simp
    from Cons.IH[OF r this] show ?thesis .
  qed
qed

lemma new_levels_members:
  "new_levels random k mn mx cfg = Inr lvls \<Longrightarrow> lvl \<in> set lvls \<Longrightarrow>
   \<exists>k' lam bs. new_buckets random k' lam mn mx cfg = Inr bs \<and> lvl = Level_init bs"
  by (auto simp: new_levels_def split: sum.splits dest: new_levels_from_members)

text \<open>
  What holds of every level that \<^verbatim>\<open>new_levels\<close> returns, whatever the draws: it has
  \<^verbatim>\<open>bucket_size\<close> buckets, each bucket's upper bound is the next bucket's lower bound, the
  first bucket starts at \<open>0 + min_price\<close>, and the last bucket ends at the rounded sum
  above. That sum is a function of the range alone, and it need not be \<open>max_price\<close>.
\<close>

lemma grid_ends:
  assumes cfg: "1 \<le> bucket_size cfg"
    and built: "new_levels random k min_price max_price cfg = Inr lvls"
    and lvl: "lvl \<in> set lvls"
  shows "length (buckets lvl) = nat (bucket_size cfg)"
    and "Suc i < length (buckets lvl) \<Longrightarrow> rhs (buckets lvl ! i) = lhs (buckets lvl ! Suc i)"
    and "lhs (hd (buckets lvl)) = float_add 0 min_price"
    and "rhs (last (buckets lvl))
           = float_add (float_mul 1 (float_sub max_price min_price)) min_price"
proof -
  define n where "n = nat (bucket_size cfg)"
  from cfg have n0: "0 \<le> bucket_size cfg" and n1: "1 \<le> n" by (auto simp: n_def)
  from new_levels_members[OF built lvl] obtain k' lam bs where
    nb: "new_buckets random k' lam min_price max_price cfg = Inr bs" and li: "lvl = Level_init bs"
    by blast
  have bl: "buckets lvl = bs" by (simp add: li Level_init_def)
  from new_buckets_shape[OF nb n0] obtain xs where
    xs: "length xs = n + 1" "hd xs = float_add 0 min_price"
      "last xs = float_add (float_mul 1 (float_sub max_price min_price)) min_price"
      "length bs = n" "\<forall>i<n. lhs (bs ! i) = xs ! i \<and> rhs (bs ! i) = xs ! Suc i"
    unfolding n_def by blast
  have ne: "bs \<noteq> []" using xs(4) n1 by auto
  have x0: "xs ! 0 = hd xs" using xs(1) by (cases xs) auto
  have xn: "xs ! n = last xs" using xs(1) by (cases xs rule: rev_cases) (auto simp: nth_append)
  show "length (buckets lvl) = nat (bucket_size cfg)" by (simp add: bl xs(4) n_def)
  show "rhs (buckets lvl ! i) = lhs (buckets lvl ! Suc i)" if "Suc i < length (buckets lvl)"
    using that xs(4,5) by (simp add: bl)
  show "lhs (hd (buckets lvl)) = float_add 0 min_price"
    using ne xs(5) n1 x0 xs(2) by (simp add: bl hd_conv_nth)
  show "rhs (last (buckets lvl))
          = float_add (float_mul 1 (float_sub max_price min_price)) min_price"
    using ne xs(5) n1 xn xs(3,4) by (simp add: bl last_conv_nth)
qed

lemma upt_0_6: "[0..<6] = [0, 1, 2, 3, 4, 5::nat]"
  by code_simp

lemma upt_0_5: "[0..<5] = [0, 1, 2, 3, 4::nat]"
  by code_simp

text \<open>
  C3 does not hold of the code: the buckets need not end at \<open>max_price\<close>. Over the range
  of the literals \<^verbatim>\<open>0.2\<close> and \<^verbatim>\<open>0.9\<close> the construction returns the level above: it starts at
  \<open>min_price\<close>, but its last bound is the double below \<open>max_price\<close>, and \<^verbatim>\<open>sample_buckets\<close>
  answers \<open>-1\<close> for the price \<open>max_price\<close>, which is in the range. Over the range of the
  literals \<^verbatim>\<open>0.03\<close> and \<^verbatim>\<open>0.29\<close> the last bound is the double above \<open>max_price\<close>, and
  \<^verbatim>\<open>sample_buckets\<close> answers bucket 4 for that price, which is outside the range. The last
  two lines are the sum of \<open>grid_ends\<close> at the two ranges: the last bound is the same for
  all draws.
\<close>

theorem grid_misses_max_price:
  "new_levels ex_random 0 (binary64 (2 / 10)) (binary64 (9 / 10)) ex_cfg = Inr [ex_level_02_09]
   \<and> lhs (hd (buckets ex_level_02_09)) = binary64 (2 / 10)
   \<and> rhs (last (buckets ex_level_02_09)) < binary64 (9 / 10)
   \<and> Level_sample_buckets ex_level_02_09 (binary64 (9 / 10)) = - 1
   \<and> new_levels ex_random 0 (binary64 (3 / 100)) (binary64 (29 / 100)) ex_cfg
       = Inr [ex_level_003_029]
   \<and> lhs (hd (buckets ex_level_003_029)) = binary64 (3 / 100)
   \<and> binary64 (29 / 100) < rhs (last (buckets ex_level_003_029))
   \<and> Level_sample_buckets ex_level_003_029 (rhs (last (buckets ex_level_003_029))) = 4
   \<and> float_add (float_mul 1 (float_sub (binary64 (9 / 10)) (binary64 (2 / 10))))
        (binary64 (2 / 10)) = rhs (last (buckets ex_level_02_09))
   \<and> float_add (float_mul 1 (float_sub (binary64 (29 / 100)) (binary64 (3 / 100))))
        (binary64 (3 / 100)) = rhs (last (buckets ex_level_003_029))"
proof -
  have a: "new_levels ex_random 0 (binary64 (2 / 10)) (binary64 (9 / 10)) ex_cfg
             = Inr [ex_level_02_09]"
    unfolding binary64_literals
    by (simp add: new_levels_def linspace_def ex_cfg_def new_buckets_def
        generate_bucket_bounds_def ex_random_def ex_level_02_09_def Let_def upt_0_6 upt_0_5
        float_eval binary64_eval)
  have b: "new_levels ex_random 0 (binary64 (3 / 100)) (binary64 (29 / 100)) ex_cfg
             = Inr [ex_level_003_029]"
    unfolding binary64_literals
    by (simp add: new_levels_def linspace_def ex_cfg_def new_buckets_def
        generate_bucket_bounds_def ex_random_def ex_level_003_029_def Let_def upt_0_6 upt_0_5
        float_eval binary64_eval)
  have c: "lhs (hd (buckets ex_level_02_09)) = binary64 (2 / 10)
      \<and> rhs (last (buckets ex_level_02_09)) < binary64 (9 / 10)
      \<and> Level_sample_buckets ex_level_02_09 (binary64 (9 / 10)) = - 1"
    unfolding binary64_literals
    by (simp add: ex_level_02_09_def Level_init_def Bucket_init_def Level_sample_buckets_def)
  have d: "lhs (hd (buckets ex_level_003_029)) = binary64 (3 / 100)
      \<and> binary64 (29 / 100) < rhs (last (buckets ex_level_003_029))
      \<and> Level_sample_buckets ex_level_003_029 (rhs (last (buckets ex_level_003_029))) = 4"
    unfolding binary64_literals
    by (simp add: ex_level_003_029_def Level_init_def Bucket_init_def Level_sample_buckets_def)
  have e: "float_add (float_mul 1 (float_sub (binary64 (9 / 10)) (binary64 (2 / 10))))
        (binary64 (2 / 10)) = rhs (last (buckets ex_level_02_09))"
    unfolding binary64_literals
    by (simp add: ex_level_02_09_def Level_init_def Bucket_init_def float_eval binary64_eval)
  have f: "float_add (float_mul 1 (float_sub (binary64 (29 / 100)) (binary64 (3 / 100))))
        (binary64 (3 / 100)) = rhs (last (buckets ex_level_003_029))"
    unfolding binary64_literals
    by (simp add: ex_level_003_029_def Level_init_def Bucket_init_def float_eval binary64_eval)
  from a b c d e f show ?thesis by blast
qed

text \<open>
  Every bucket of a space that \<^verbatim>\<open>load_spaces\<close> builds has passed the checks on the
  configuration: a window of at least ten, a discount in the unit interval, and the state
  the constructor gives it.
\<close>

lemma load_space_buckets:
  assumes "load_space random k cfg ctx mn mx = Inr sp" "lvl \<in> set (levels sp)"
    "b \<in> set (buckets lvl)"
  shows "10 \<le> sizeB b \<and> 0 \<le> discount b \<and> discount b \<le> 1 \<and> Bucket_ok b"
proof -
  from assms(1) have v: "10 \<le> buffer_size cfg" "0 \<le> cfg_discount cfg" "cfg_discount cfg \<le> 1"
    and "\<exists>lvls. new_levels random k mn mx cfg = Inr lvls \<and> sp = Space_init ctx lvls"
    by (auto simp: load_space_def MIN_BUFFER_SIZE_def split: if_splits sum.splits)
  then obtain lvls where l: "new_levels random k mn mx cfg = Inr lvls" "sp = Space_init ctx lvls"
    by blast
  with assms(2) have "lvl \<in> set lvls" by (simp add: Space_init_def)
  from new_levels_members[OF l(1) this] obtain k' lam bs where
    nb: "new_buckets random k' lam mn mx cfg = Inr bs" and li: "lvl = Level_init bs" by blast
  from assms(3) li have "b \<in> set bs" by (simp add: Level_init_def)
  with nb obtain l' r' where b: "b = Bucket_init l' r' (buffer_size cfg) (cfg_discount cfg)"
    by (auto simp: new_buckets_def Let_def split: sum.splits)
  have "Bucket_inv b" unfolding b using v(1) by (intro Bucket_init_inv) simp
  then show ?thesis using v by (simp add: Bucket_ok_def) (simp add: b Bucket_init_def)
qed

section \<open>Feedback and recalibration on one space\<close>

text \<open>
  C9 does not hold of the code: \<^verbatim>\<open>learn\<close> never takes the lock. From a space whose level
  holds ten samples: the two orders in which the methods run one after the other end with
  the new sample kept for the next pass, or with a curve trained on eleven samples. When
  the feedback runs between lines 113 and 115 of \<^verbatim>\<open>learn\<close>, the curve is trained on ten
  samples and the new sample is cleared unseen, an outcome of neither order. \<^verbatim>\<open>learn\<close>
  also runs to its end while a feedback holds the lock, whereas a second feedback waits.
\<close>

theorem learn_races_with_feedback:
  "run_schedule ex_lgb
     [Learn_fit 0, Learn_clear 0, Feedback_acquire, Feedback_body [0] True, Feedback_release]
     ex_locked = ex_outcome (1 / 4) [ex_sample_hit]
   \<and> run_schedule ex_lgb
     [Feedback_acquire, Feedback_body [0] True, Feedback_release, Learn_fit 0, Learn_clear 0]
     ex_locked = ex_outcome (11 / 40) []
   \<and> run_schedule ex_lgb
     [Learn_fit 0, Feedback_acquire, Feedback_body [0] True, Feedback_release, Learn_clear 0]
     ex_locked = ex_outcome (1 / 4) []
   \<and> run_schedule ex_lgb
     [Feedback_acquire, Learn_fit 0, Learn_clear 0, Feedback_body [0] True, Feedback_release]
     ex_locked = ex_outcome (1 / 4) [ex_sample_hit]
   \<and> run_schedule ex_lgb [Feedback_acquire, Feedback_acquire] ex_locked = None
   \<and> ex_outcome (1 / 4) [] \<noteq> ex_outcome (1 / 4) [ex_sample_hit]
   \<and> ex_outcome (1 / 4) [] \<noteq> ex_outcome (11 / 40) []"
  by (simp add: ex_locked_def ex_space_ten_def ex_outcome_def ex_bucket_hit_def
      ex_sample_hit_def ex_lgb_def ex_level_def Level_init_def Bucket_init_def ex_win_def
      ex_loss_def learn_fit_def learn_clear_def Space_update_feedback_def py_index_def
      Bucket_update_def Let_def list_all_iff fun_eq_iff)

end
